theory Spec2Isabelle
  imports
    Complex_Main
    "HOL-Library.Word"
    "HOL-Library.Char_ord"
    "HOL-Library.List_Lexorder"
    "HOL-Library.Multiset"
begin

section \<open>LocalSense seller shim: the periodic telemetry broadcaster\<close>

text \<open>
  A shallow embedding of the two broadcast loops of the Go seller shim:
  \<^item> \<^verbatim>\<open>neuron_seller.go\<close>: \<^verbatim>\<open>ensureDefaults\<close>, \<^verbatim>\<open>loadNeuronSellerConfig\<close>,
    \<^verbatim>\<open>handleSellerStream\<close>, \<^verbatim>\<open>broadcastSample\<close>, \<^verbatim>\<open>buildSamplePayload\<close>, \<^verbatim>\<open>fetchPiMetrics\<close>;
  \<^item> the shim's main file: \<^verbatim>\<open>fetchJSON\<close> and \<^verbatim>\<open>streamHandler\<close>.

  Go's \<^verbatim>\<open>int64\<close> and \<^verbatim>\<open>time.Duration\<close> are 64-bit words read as two's complement;
  strings and byte slices are lists of \<^typ>\<open>char\<close> (a \<^typ>\<open>char\<close> is a byte).
\<close>

subsection \<open>Basic types\<close>

type_synonym int64 = "64 word"
type_synonym Duration = "64 word"
type_synonym bytes = string

text \<open>\<^verbatim>\<open>time.Second\<close>: a \<^verbatim>\<open>Duration\<close> counts nanoseconds.\<close>

definition Second :: Duration where
  "Second = 1000000000"

subsection \<open>Configuration of the peer broadcaster\<close>

text \<open>\<^verbatim>\<open>type neuronSellerConfig struct\<close>; \<^verbatim>\<open>protocol.ID\<close> is a string type.\<close>

record neuronSellerConfig =
  Enabled :: bool
  Protocol :: string
  Version :: string
  StreamInterval :: Duration
  SampleKind :: string

text \<open>
  \<^verbatim>\<open>func (c neuronSellerConfig) ensureDefaults() neuronSellerConfig\<close>: four independent
  \<^verbatim>\<open>if\<close> statements on a copy of the receiver, in the order of the source. The
  comparison \<^verbatim>\<open>c.StreamInterval <= 0\<close> is a signed one.
\<close>

definition ensureDefaults :: "neuronSellerConfig \<Rightarrow> neuronSellerConfig" where
  "ensureDefaults c =
     (let c1 = (if StreamInterval c \<le>s 0 then c\<lparr>StreamInterval := 5 * Second\<rparr> else c);
          c2 = (if Protocol c1 = [] then c1\<lparr>Protocol := ''/localsense/brightness/v1''\<rparr> else c1);
          c3 = (if Version c2 = [] then c2\<lparr>Version := ''0.1.0''\<rparr> else c2);
          c4 = (if SampleKind c3 = [] then c3\<lparr>SampleKind := ''brightness_sample''\<rparr> else c3)
      in c4)"

text \<open>
  The environment helpers. \<^verbatim>\<open>os.Getenv\<close> is a function from names to values (the empty
  string for an unset variable). \<^verbatim>\<open>strings.TrimSpace\<close>, \<^verbatim>\<open>strings.ToLower\<close> and
  \<^verbatim>\<open>strconv.Atoi\<close> belong to the Go standard library; the model takes them as
  parameters, so that every result below holds whatever they compute.
\<close>

record stdlib =
  TrimSpace :: "string \<Rightarrow> string"
  ToLower :: "string \<Rightarrow> string"
  Atoi :: "string \<Rightarrow> int option"

definition getEnvOrDefault :: "stdlib \<Rightarrow> (string \<Rightarrow> string) \<Rightarrow> string \<Rightarrow> string \<Rightarrow> string" where
  "getEnvOrDefault lib getenv key fallback =
     (let val = TrimSpace lib (getenv key)
      in if val = [] then fallback else val)"

definition parseEnvBool :: "stdlib \<Rightarrow> (string \<Rightarrow> string) \<Rightarrow> string \<Rightarrow> bool \<Rightarrow> bool" where
  "parseEnvBool lib getenv key fallback =
     (let val = TrimSpace lib (ToLower lib (getenv key))
      in if val = [] then fallback
         else if val \<in> set [''1'', ''true'', ''yes'', ''y'', ''on''] then True
         else if val \<in> set [''0'', ''false'', ''no'', ''n'', ''off''] then False
         else fallback)"

definition parseEnvInt :: "stdlib \<Rightarrow> (string \<Rightarrow> string) \<Rightarrow> string \<Rightarrow> int \<Rightarrow> int" where
  "parseEnvInt lib getenv key fallback =
     (let val = TrimSpace lib (getenv key)
      in if val = [] then fallback
         else (case Atoi lib val of None \<Rightarrow> fallback | Some parsed \<Rightarrow> parsed))"

text \<open>
  \<^verbatim>\<open>loadNeuronSellerConfig\<close>. The conversion \<^verbatim>\<open>time.Duration(n) * time.Second\<close> is a
  multiplication of 64-bit integers and wraps around. The error result of the source is
  always \<^verbatim>\<open>nil\<close>, so the model returns the configuration alone.
\<close>

definition loadNeuronSellerConfig :: "stdlib \<Rightarrow> (string \<Rightarrow> string) \<Rightarrow> neuronSellerConfig" where
  "loadNeuronSellerConfig lib getenv =
     ensureDefaults
       \<lparr> Enabled = parseEnvBool lib getenv ''NEURON_ENABLE'' False,
         Protocol = getEnvOrDefault lib getenv ''NEURON_PROTOCOL_ID'' ''/localsense/brightness/v1'',
         Version = getEnvOrDefault lib getenv ''NEURON_VERSION'' ''0.1.0'',
         StreamInterval =
           word_of_int (parseEnvInt lib getenv ''NEURON_STREAM_INTERVAL_SECONDS'' 5) * Second,
         SampleKind = getEnvOrDefault lib getenv ''NEURON_SAMPLE_KIND'' ''brightness_sample'' \<rparr>"

subsection \<open>The seller's identity\<close>

text \<open>
  A \<^verbatim>\<open>float64\<close> is modelled by the value it denotes: a finite value by the rational it
  stands for, and the three special values by constructors of their own. The code never
  computes with floats: it decodes them, converts one to \<^verbatim>\<open>int64\<close> and prints them,
  so rounding plays no part. (Every finite \<^verbatim>\<open>float64\<close> is a rational; the results below
  hold for all rationals, hence for all floats. Negative zero is not distinguished.)
\<close>

datatype float64 = Finite rat | PosInf | NegInf | NaN

text \<open>\<^verbatim>\<open>type SellerConfig struct\<close> and the global \<^verbatim>\<open>sellerCfg\<close>, passed explicitly.\<close>

record SellerConfig =
  SellerID :: string
  PiBase :: string
  Lat :: float64
  Lon :: float64
  Label :: string
  Port :: string

record neuronSeller =
  cfg :: neuronSellerConfig

text \<open>
  The package-level variables that the handlers can read: \<^verbatim>\<open>sellerCfg\<close> and
  \<^verbatim>\<open>neuronCfg\<close>. Both are written once at start-up.
\<close>

record globals =
  sellerCfg :: SellerConfig
  neuronCfg :: neuronSellerConfig

text \<open>\<^verbatim>\<open>type piMetrics struct { Ts, Brightness float64 }\<close>.\<close>

record piMetrics =
  Ts :: float64
  Brightness :: float64

subsection \<open>Errors\<close>

text \<open>
  Every \<^verbatim>\<open>error\<close> value the two loops can see. The wrapping errors keep what they wrap
  (\<^verbatim>\<open>%w\<close>); errors of the network and of a writer are opaque texts.
\<close>

datatype error =
    ErrNilMetrics                  \<comment> \<open>\<^verbatim>\<open>metrics payload is nil\<close>\<close>
  | ErrMarshalPayload error        \<comment> \<open>\<^verbatim>\<open>marshal payload: %w\<close>\<close>
  | ErrPiBaseNotConfigured         \<comment> \<open>\<^verbatim>\<open>PI_BASE_URL is not configured\<close>\<close>
  | ErrGet string error            \<comment> \<open>\<^verbatim>\<open>GET %s: %w\<close>\<close>
  | ErrStatus string string        \<comment> \<open>\<^verbatim>\<open>GET %s: status %s\<close>\<close>
  | ErrDecode string error         \<comment> \<open>\<^verbatim>\<open>decode %s: %w\<close>\<close>
  | ErrSyntax                      \<comment> \<open>the body is not a JSON text (or is empty)\<close>
  | ErrUnmarshalType               \<comment> \<open>\<^verbatim>\<open>json.UnmarshalTypeError\<close>\<close>
  | ErrUnsupportedValue            \<comment> \<open>\<^verbatim>\<open>json.UnsupportedValueError\<close>: NaN or an infinity\<close>
  | ErrIO string                   \<comment> \<open>a failure of the network, of a peer stream or of a writer\<close>

subsection \<open>Go values and their JSON text\<close>

text \<open>
  The dynamic values (\<^verbatim>\<open>any\<close>) that the two payload maps hold. A Go map is the list
  of its entries, with distinct keys, in the order in which the runtime happens to
  iterate over it; that order is not specified by the language.
\<close>

datatype goval =
    GNil
  | GBool bool
  | GInt int64
  | GFloat float64
  | GString string
  | GSlice "goval list"
  | GMap "(string \<times> goval) list"

text \<open>
  What the source leaves to the platform it runs on:
  \<^item> the result of \<^verbatim>\<open>int64(f)\<close> when \<^verbatim>\<open>f\<close> is NaN, infinite or outside the range of
    \<^verbatim>\<open>int64\<close> (the Go specification calls it implementation-dependent);
  \<^item> how \<^verbatim>\<open>encoding/json\<close> prints a finite float and quotes a string;
  \<^item> the order in which a freshly built map is iterated;
  \<^item> the offset of the local time zone at an instant.
\<close>

record platform =
  convOutOfRange :: "float64 \<Rightarrow> int64"
  fmtFloat :: "rat \<Rightarrow> string"
  fmtString :: "string \<Rightarrow> string"
  mapOrder :: "(string \<times> goval) list \<Rightarrow> (string \<times> goval) list"
  localZone :: "int64 \<Rightarrow> int"

text \<open>A runtime may iterate a map in any order, but over exactly its entries.\<close>

definition platform_ok :: "platform \<Rightarrow> bool" where
  "platform_ok pf = (\<forall>kvs. mset (mapOrder pf kvs) = mset kvs)"

text \<open>Truncation towards zero, the rule of Go's float-to-integer conversion.\<close>

definition trunc :: "rat \<Rightarrow> int" where
  "trunc r = (if 0 \<le> r then \<lfloor>r\<rfloor> else \<lceil>r\<rceil>)"

definition int64_of_float64 :: "platform \<Rightarrow> float64 \<Rightarrow> int64" where
  "int64_of_float64 pf f =
     (case f of
        Finite r \<Rightarrow>
          if - (2 ^ 63) \<le> trunc r \<and> trunc r < 2 ^ 63 then word_of_int (trunc r)
          else convOutOfRange pf f
      | _ \<Rightarrow> convOutOfRange pf f)"

text \<open>Decimal digits of a natural number, and \<^verbatim>\<open>strconv.FormatInt(x, 10)\<close>.\<close>

fun decimal :: "nat \<Rightarrow> string" where
  "decimal n =
     (if n < 10 then [''0123456789'' ! n]
      else decimal (n div 10) @ [''0123456789'' ! (n mod 10)])"

declare decimal.simps [simp del]

definition formatInt :: "int \<Rightarrow> string" where
  "formatInt x = (if x < 0 then ''-'' @ decimal (nat (- x)) else decimal (nat x))"

fun commaSep :: "string list \<Rightarrow> string" where
  "commaSep [] = []"
| "commaSep [x] = x"
| "commaSep (x # y # zs) = x @ '','' @ commaSep (y # zs)"

text \<open>
  \<^verbatim>\<open>json.Marshal\<close>. It fails on a float that is not finite, anywhere in the value; else
  it prints the value, a map with its keys sorted bytewise.
\<close>

fun unsupported :: "goval \<Rightarrow> bool" where
  "unsupported (GFloat f) = (case f of Finite r \<Rightarrow> False | _ \<Rightarrow> True)"
| "unsupported (GSlice vs) = list_ex unsupported vs"
| "unsupported (GMap kvs) = list_ex (\<lambda>kv. unsupported (snd kv)) kvs"
| "unsupported _ = False"

fun render :: "platform \<Rightarrow> goval \<Rightarrow> bytes" where
  "render pf GNil = ''null''"
| "render pf (GBool b) = (if b then ''true'' else ''false'')"
| "render pf (GInt i) = formatInt (sint i)"
| "render pf (GFloat f) = (case f of Finite r \<Rightarrow> fmtFloat pf r | _ \<Rightarrow> [])"
| "render pf (GString s) = fmtString pf s"
| "render pf (GSlice vs) = ''['' @ commaSep (map (render pf) vs) @ '']''"
| "render pf (GMap kvs) =
     ''{'' @ commaSep (map (\<lambda>kt. fmtString pf (fst kt) @ '':'' @ snd kt)
              (sort_key fst (map (\<lambda>kv. (fst kv, render pf (snd kv))) kvs))) @ ''}''"

definition json_Marshal :: "platform \<Rightarrow> goval \<Rightarrow> error + bytes" where
  "json_Marshal pf v = (if unsupported v then Inl ErrUnsupportedValue else Inr (render pf v))"

subsection \<open>Time\<close>

text \<open>
  A \<^verbatim>\<open>time.Time\<close>: the instant (what \<^verbatim>\<open>Unix()\<close> returns, and the nanoseconds within
  the second) and the offset east of UTC, in seconds, of the location it is shown in.
  \<^verbatim>\<open>time.Unix\<close> returns a time in the local zone.
\<close>

record Time =
  unixSec :: int64
  nanos :: nat
  zone :: int

definition time_Unix :: "platform \<Rightarrow> int64 \<Rightarrow> nat \<Rightarrow> Time" where
  "time_Unix pf sec nsec = \<lparr> unixSec = sec, nanos = nsec, zone = localZone pf sec \<rparr>"

definition UTC :: "Time \<Rightarrow> Time" where
  "UTC t = t\<lparr> zone := 0 \<rparr>"

definition Unix :: "Time \<Rightarrow> int64" where
  "Unix t = unixSec t"

text \<open>
  The civil date of a day number (days since 1970-01-01) in the proleptic Gregorian
  calendar: year, month, day.
\<close>

definition civil :: "int \<Rightarrow> int \<times> int \<times> int" where
  "civil days =
     (let z = days + 719468;
          era = z div 146097;
          doe = z - era * 146097;
          yoe = (doe - doe div 1460 + doe div 36524 - doe div 146096) div 365;
          doy = doe - (365 * yoe + yoe div 4 - yoe div 100);
          mp = (5 * doy + 2) div 153;
          d = doy - (153 * mp + 2) div 5 + 1;
          m = (if mp < 10 then mp + 3 else mp - 9);
          y = yoe + era * 400 + (if m \<le> 2 then 1 else 0)
      in (y, m, d))"

text \<open>\<^verbatim>\<open>appendInt(b, x, width)\<close> of package \<^verbatim>\<open>time\<close>: a sign, then zero-padded digits.\<close>

definition appendInt :: "int \<Rightarrow> nat \<Rightarrow> string" where
  "appendInt x width =
     (let ds = decimal (nat \<bar>x\<bar>)
      in (if x < 0 then ''-'' else []) @ replicate (width - length ds) (CHR ''0'') @ ds)"

text \<open>
  \<^verbatim>\<open>t.Format(time.RFC3339)\<close>, layout \<^verbatim>\<open>2006-01-02T15:04:05Z07:00\<close>: the civil date and
  time of day at the time's offset, then \<^verbatim>\<open>Z\<close> for offset zero or the signed offset.
  A year outside 0000 to 9999 is printed with the digits it has, as the library does.
\<close>

definition rfc3339 :: "int \<Rightarrow> int \<Rightarrow> string" where
  "rfc3339 sec offset =
     (let local = sec + offset;
          sod = local mod 86400;
          ymd = civil (local div 86400);
          mins = \<bar>offset\<bar> div 60
      in appendInt (fst ymd) 4 @ ''-'' @ appendInt (fst (snd ymd)) 2 @ ''-''
         @ appendInt (snd (snd ymd)) 2 @ ''T'' @ appendInt (sod div 3600) 2 @ '':''
         @ appendInt (sod mod 3600 div 60) 2 @ '':'' @ appendInt (sod mod 60) 2
         @ (if offset = 0 then ''Z''
            else (if offset < 0 then ''-'' else ''+'')
                 @ appendInt (mins div 60) 2 @ '':'' @ appendInt (mins mod 60) 2))"

definition Format_RFC3339 :: "Time \<Rightarrow> string" where
  "Format_RFC3339 t = rfc3339 (sint (unixSec t)) (zone t)"

subsection \<open>The envelope builder\<close>

text \<open>
  \<^verbatim>\<open>func (s *neuronSeller) buildSamplePayload(now time.Time, metrics *piMetrics)\<close>.
  A nil pointer is \<^const>\<open>None\<close>. The results \<^verbatim>\<open>(data, tsEpoch, nil)\<close> and
  \<^verbatim>\<open>(nil, 0, err)\<close> are the two sides of the sum.
\<close>

definition buildSamplePayload ::
  "platform \<Rightarrow> globals \<Rightarrow> neuronSeller \<Rightarrow> Time \<Rightarrow> piMetrics option \<Rightarrow> error + (bytes \<times> int64)" where
  "buildSamplePayload pf g s now metrics =
     (case metrics of
        None \<Rightarrow> Inl ErrNilMetrics
      | Some m \<Rightarrow>
          let tsEpoch0 = int64_of_float64 pf (Ts m);
              tsEpoch = (if 0 <s tsEpoch0 then tsEpoch0 else Unix (UTC now));
              isoTime = (if 0 <s tsEpoch0 then UTC (time_Unix pf tsEpoch0 0) else UTC now);
              payload = GMap (mapOrder pf
                [(''ts'', GInt tsEpoch),
                 (''ts_iso'', GString (Format_RFC3339 isoTime)),
                 (''brightness'', GFloat (Brightness m)),
                 (''seller_id'', GString (SellerID (sellerCfg g))),
                 (''source'', GString (SellerID (sellerCfg g))),
                 (''label'', GString (Label (sellerCfg g))),
                 (''lat'', GFloat (Lat (sellerCfg g))),
                 (''lon'', GFloat (Lon (sellerCfg g))),
                 (''kind'', GString (SampleKind (cfg s)))])
          in (case json_Marshal pf payload of
                Inl err \<Rightarrow> Inl (ErrMarshalPayload err)
              | Inr data \<Rightarrow> Inr (data, tsEpoch)))"

subsection \<open>The sensor's HTTP answer and its decoding\<close>

text \<open>
  The JSON grammar itself is not modelled: a response body is the first JSON value that
  the decoder reads from it, or \<open>Malformed\<close> when there is none (a syntax error, an
  empty body, a read failure, a nesting deeper than the decoder allows). A number token
  is what \<^verbatim>\<open>strconv.ParseFloat\<close> makes of it: a finite float, or a range error.
\<close>

datatype number = InRange rat | OutOfRange

datatype json =
    JNull
  | JBool bool
  | JNumber number
  | JString string
  | JArray "json list"
  | JObject "(string \<times> json) list"

datatype body = Malformed | Document json

record httpResponse =
  StatusCode :: nat
  Status :: string
  Body :: body

text \<open>
  How \<^verbatim>\<open>encoding/json\<close> matches an object key to a struct field: the exact name first,
  then the folded name. Folding turns ASCII letters to upper case; of all other
  characters only the long s (bytes C5 BF) and the Kelvin sign (bytes E2 84 AA) fold to
  an ASCII letter.
\<close>

definition upperASCII :: "char \<Rightarrow> char" where
  "upperASCII c =
     (case map_of (zip ''abcdefghijklmnopqrstuvwxyz'' ''ABCDEFGHIJKLMNOPQRSTUVWXYZ'') c of
        None \<Rightarrow> c
      | Some u \<Rightarrow> u)"

fun foldName :: "string \<Rightarrow> string" where
  "foldName [] = []"
| "foldName (c # cs) =
     (case cs of
        [] \<Rightarrow> [upperASCII c]
      | d # ds \<Rightarrow>
          if c = CHR 0xC5 \<and> d = CHR 0xBF then CHR ''S'' # foldName ds
          else (case ds of
                  [] \<Rightarrow> upperASCII c # foldName cs
                | e # es \<Rightarrow>
                    if c = CHR 0xE2 \<and> d = CHR 0x84 \<and> e = CHR 0xAA
                    then CHR ''K'' # foldName es
                    else upperASCII c # foldName cs))"

datatype field = FieldTs | FieldBrightness

definition fieldFor :: "string \<Rightarrow> field option" where
  "fieldFor key =
     (if key = ''ts'' then Some FieldTs
      else if key = ''brightness'' then Some FieldBrightness
      else if foldName key = ''TS'' then Some FieldTs
      else if foldName key = ''BRIGHTNESS'' then Some FieldBrightness
      else None)"

text \<open>
  Storing a JSON value into a \<^verbatim>\<open>float64\<close> field: a number in range is stored,
  \<^verbatim>\<open>null\<close> leaves the field alone, anything else is a type error, which the decoder
  remembers (the first one) while it goes on.
\<close>

definition storeFloat :: "json \<Rightarrow> float64 \<Rightarrow> float64 \<times> error option" where
  "storeFloat v old =
     (case v of
        JNumber (InRange r) \<Rightarrow> (Finite r, None)
      | JNull \<Rightarrow> (old, None)
      | _ \<Rightarrow> (old, Some ErrUnmarshalType))"

definition firstError :: "error option \<Rightarrow> error option \<Rightarrow> error option" where
  "firstError saved new = (case saved of None \<Rightarrow> new | Some e \<Rightarrow> Some e)"

fun decodeObject :: "(string \<times> json) list \<Rightarrow> piMetrics \<times> error option \<Rightarrow> piMetrics \<times> error option" where
  "decodeObject [] st = st"
| "decodeObject (kv # rest) st =
     (case fieldFor (fst kv) of
        None \<Rightarrow> decodeObject rest st
      | Some FieldTs \<Rightarrow>
          (let (x, err) = storeFloat (snd kv) (Ts (fst st))
           in decodeObject rest ((fst st)\<lparr>Ts := x\<rparr>, firstError (snd st) err))
      | Some FieldBrightness \<Rightarrow>
          (let (x, err) = storeFloat (snd kv) (Brightness (fst st))
           in decodeObject rest ((fst st)\<lparr>Brightness := x\<rparr>, firstError (snd st) err)))"

text \<open>Decoding into \<^verbatim>\<open>var metrics piMetrics\<close>, which starts as the zero value.\<close>

definition decode_piMetrics :: "json \<Rightarrow> error + piMetrics" where
  "decode_piMetrics j =
     (case j of
        JNull \<Rightarrow> Inr \<lparr> Ts = Finite 0, Brightness = Finite 0 \<rparr>
      | JObject kvs \<Rightarrow>
          (case decodeObject kvs (\<lparr> Ts = Finite 0, Brightness = Finite 0 \<rparr>, None) of
             (m, None) \<Rightarrow> Inr m
           | (m, Some err) \<Rightarrow> Inl err)
      | _ \<Rightarrow> Inl ErrUnmarshalType)"

text \<open>
  Decoding into \<^verbatim>\<open>map[string]any\<close>: every value becomes a Go value, a number out of
  range is a type error, and a later duplicate of a key replaces the earlier entry.
\<close>

fun rangeError :: "json \<Rightarrow> bool" where
  "rangeError (JNumber n) = (case n of InRange r \<Rightarrow> False | OutOfRange \<Rightarrow> True)"
| "rangeError (JArray vs) = list_ex rangeError vs"
| "rangeError (JObject kvs) = list_ex (\<lambda>kv. rangeError (snd kv)) kvs"
| "rangeError _ = False"

fun mapAssign :: "string \<Rightarrow> 'v \<Rightarrow> (string \<times> 'v) list \<Rightarrow> (string \<times> 'v) list" where
  "mapAssign k v [] = [(k, v)]"
| "mapAssign k v (e # es) = (if fst e = k then (k, v) # es else e # mapAssign k v es)"

definition mapOfEntries :: "(string \<times> 'v) list \<Rightarrow> (string \<times> 'v) list" where
  "mapOfEntries kvs = foldl (\<lambda>m kv. mapAssign (fst kv) (snd kv) m) [] kvs"

fun toAny :: "json \<Rightarrow> goval" where
  "toAny JNull = GNil"
| "toAny (JBool b) = GBool b"
| "toAny (JNumber n) = (case n of InRange r \<Rightarrow> GFloat (Finite r) | OutOfRange \<Rightarrow> GNil)"
| "toAny (JString s) = GString s"
| "toAny (JArray vs) = GSlice (map toAny vs)"
| "toAny (JObject kvs) = GMap (mapOfEntries (map (\<lambda>kv. (fst kv, toAny (snd kv))) kvs))"

definition decode_map :: "json \<Rightarrow> error + (string \<times> goval) list" where
  "decode_map j =
     (case j of
        JNull \<Rightarrow> Inr []
      | JObject kvs \<Rightarrow>
          if rangeError j then Inl ErrUnmarshalType
          else Inr (mapOfEntries (map (\<lambda>kv. (fst kv, toAny (snd kv))) kvs))
      | _ \<Rightarrow> Inl ErrUnmarshalType)"

text \<open>Reading \<^verbatim>\<open>m[key]\<close> from a \<^verbatim>\<open>map[string]any\<close>: \<^verbatim>\<open>nil\<close> for a missing key.\<close>

definition mapIndex :: "(string \<times> goval) list \<Rightarrow> string \<Rightarrow> goval" where
  "mapIndex m key = (case map_of m key of None \<Rightarrow> GNil | Some v \<Rightarrow> v)"

text \<open>\<^verbatim>\<open>json.NewDecoder(resp.Body).Decode(dest)\<close>, for a destination decoded by \<open>dec\<close>.\<close>

definition Decode :: "(json \<Rightarrow> error + 'a) \<Rightarrow> body \<Rightarrow> error + 'a" where
  "Decode dec b = (case b of Malformed \<Rightarrow> Inl ErrSyntax | Document j \<Rightarrow> dec j)"

subsection \<open>Observable effects\<close>

text \<open>
  The peer registry of the SDK: \<^verbatim>\<open>buffers.GetBufferMap()\<close> is a map from peer ids to
  buffer records. Of a record the code reads the connection state, the validity flag and
  the peer's control topic. \<^verbatim>\<open>types.Connected\<close> is one state among others, which the
  code does not name.
\<close>

type_synonym peerID = string

datatype ConnectionState = Connected | OtherState string

record BufferInfo =
  LibP2PState :: ConnectionState
  IsOtherSideValidAccount :: bool
  OtherStdInTopic :: string

text \<open>The lines the two loops log, one constructor per \<^verbatim>\<open>log.Printf\<close> of the source.\<close>

datatype logLine =
    LogStreamLoopRunning Duration
  | LogContextCancelled
  | LogFetchFailed error
  | LogBuildFailed error
  | LogWriteFailed peerID error
  | LogStreamed float64 int64 peerID
  | LogClientConnected
  | LogClientDisconnected
  | LogStreamFetchError error
  | LogEncodeError error

text \<open>
  What a run does to the world, in order: the calls that leave the process, and the log.
  \<open>EvPeerWrite\<close> is a call of \<^verbatim>\<open>commonlib.WriteAndFlushBuffer\<close> (peer, bytes, protocol),
  \<open>EvPeerSendError\<close> a call of \<^verbatim>\<open>hedera_helper.PeerSendErrorMessage\<close> with error
  type \<^verbatim>\<open>types.WriteError\<close> (topic, seller id and cause of the message text).
\<close>

datatype event =
    EvLog logLine
  | EvNewTicker Duration
  | EvTickerStop
  | EvHttpGet string
  | EvPeerWrite peerID bytes string
  | EvPeerSendError string string error
  | EvSetHeader string string
  | EvHttpError string nat
  | EvHttpWrite bytes
  | EvFlush

subsection \<open>The sensor reader\<close>

text \<open>
  \<^verbatim>\<open>func fetchJSON(url string, dest any) error\<close>. The outcome of \<^verbatim>\<open>http.Get\<close> is given
  by the world, as a function of the URL; \<open>dec\<close> decodes for the type of \<open>dest\<close>.
\<close>

definition fetchJSON ::
  "(string \<Rightarrow> error + httpResponse) \<Rightarrow> (json \<Rightarrow> error + 'a) \<Rightarrow> string \<Rightarrow> event list \<times> (error + 'a)" where
  "fetchJSON get dec url =
     ([EvHttpGet url],
      (case get url of
         Inl err \<Rightarrow> Inl (ErrGet url err)
       | Inr resp \<Rightarrow>
           if StatusCode resp \<noteq> 200 then Inl (ErrStatus url (Status resp))
           else (case Decode dec (Body resp) of
                   Inl err \<Rightarrow> Inl (ErrDecode url err)
                 | Inr v \<Rightarrow> Inr v)))"

definition fetchPiMetrics ::
  "globals \<Rightarrow> (string \<Rightarrow> error + httpResponse) \<Rightarrow> event list \<times> (error + piMetrics)" where
  "fetchPiMetrics g get =
     (if PiBase (sellerCfg g) = [] then ([], Inl ErrPiBaseNotConfigured)
      else fetchJSON get decode_piMetrics (PiBase (sellerCfg g) @ ''/metrics''))"

subsection \<open>The peer broadcast\<close>

text \<open>
  \<^verbatim>\<open>broadcastSample\<close>: the \<^verbatim>\<open>range\<close> loop over the peer map, as a recursion over the
  entries in the order the loop visits them. \<open>write\<close> is the outcome of
  \<^verbatim>\<open>WriteAndFlushBuffer\<close> for a peer and a line.
\<close>

fun broadcastRange ::
  "globals \<Rightarrow> neuronSeller \<Rightarrow> (peerID \<Rightarrow> bytes \<Rightarrow> error option) \<Rightarrow> bytes \<Rightarrow> int64 \<Rightarrow> float64 \<Rightarrow>
   (peerID \<times> BufferInfo) list \<Rightarrow> event list" where
  "broadcastRange g s write line tsEpoch brightness [] = []"
| "broadcastRange g s write line tsEpoch brightness (entry # rest) =
     (let peer = fst entry; bufferInfo = snd entry
      in if LibP2PState bufferInfo \<noteq> Connected \<or> \<not> IsOtherSideValidAccount bufferInfo
         then broadcastRange g s write line tsEpoch brightness rest
         else (case write peer line of
                 Some err \<Rightarrow>
                   [EvPeerWrite peer line (Protocol (cfg s)),
                    EvLog (LogWriteFailed peer err),
                    EvPeerSendError (OtherStdInTopic bufferInfo) (SellerID (sellerCfg g)) err]
                   @ broadcastRange g s write line tsEpoch brightness rest
               | None \<Rightarrow>
                   [EvPeerWrite peer line (Protocol (cfg s)),
                    EvLog (LogStreamed brightness tsEpoch peer)]
                   @ broadcastRange g s write line tsEpoch brightness rest))"

definition broadcastSample ::
  "globals \<Rightarrow> neuronSeller \<Rightarrow> (peerID \<times> BufferInfo) list \<Rightarrow> (peerID \<Rightarrow> bytes \<Rightarrow> error option) \<Rightarrow>
   bytes \<Rightarrow> int64 \<Rightarrow> float64 \<Rightarrow> event list" where
  "broadcastSample g s bufferMap write payload tsEpoch brightness =
     (let line = payload @ [CHR 0x0A]
      in broadcastRange g s write line tsEpoch brightness bufferMap)"

subsection \<open>The select statement\<close>

text \<open>
  Both loops wait in \<^verbatim>\<open>select { case <-ctx.Done(): ... case t := <-ticker.C: ... }\<close>.
  A wake-up records which of the two channels are ready when the statement runs. When
  both are, Go chooses one of them by a uniform pseudo-random selection: the order of the
  cases gives no priority. \<open>pickTick\<close> is the outcome of that selection. When neither
  is ready the statement blocks: the loops pass over such an entry of a schedule.
\<close>

record wakeup =
  ctxDone :: bool
  tickReady :: "Time option"
  pickTick :: bool

datatype branch = CaseDone | CaseTick Time

definition select :: "wakeup \<Rightarrow> branch option" where
  "select w =
     (case tickReady w of
        None \<Rightarrow> (if ctxDone w then Some CaseDone else None)
      | Some t \<Rightarrow> (if ctxDone w \<and> \<not> pickTick w then Some CaseDone else Some (CaseTick t)))"

text \<open>
  How a run of a handler stands after a finite prefix of wake-ups: still in the loop,
  returned, or panicked (\<^verbatim>\<open>time.NewTicker\<close> panics on an interval that is not
  positive).
\<close>

datatype status = Running | Returned | Panicked

subsection \<open>The peer broadcast loop\<close>

text \<open>
  What the world answers during one tick of \<^verbatim>\<open>handleSellerStream\<close>: the peer map as
  read by the emptiness check, the answer of the sensor, the peer map as read again by
  \<^verbatim>\<open>broadcastSample\<close> (peers come and go in between), and the outcome of each write.
\<close>

record sellerTickEnv =
  bufMapAtCheck :: "(peerID \<times> BufferInfo) list"
  httpGet :: "string \<Rightarrow> error + httpResponse"
  bufMapAtSend :: "(peerID \<times> BufferInfo) list"
  peerWrite :: "peerID \<Rightarrow> bytes \<Rightarrow> error option"

text \<open>The body of \<^verbatim>\<open>case tick := <-ticker.C\<close>. Every path ends in \<^verbatim>\<open>continue\<close>.\<close>

definition sellerTick ::
  "platform \<Rightarrow> globals \<Rightarrow> neuronSeller \<Rightarrow> sellerTickEnv \<Rightarrow> Time \<Rightarrow> event list" where
  "sellerTick pf g s env tick =
     (if length (bufMapAtCheck env) = 0 then []
      else (case fetchPiMetrics g (httpGet env) of
              (evs, Inl err) \<Rightarrow> evs @ [EvLog (LogFetchFailed err)]
            | (evs, Inr metrics) \<Rightarrow>
                (case buildSamplePayload pf g s tick (Some metrics) of
                   Inl err \<Rightarrow> evs @ [EvLog (LogBuildFailed err)]
                 | Inr (payload, tsEpoch) \<Rightarrow>
                     evs @ broadcastSample g s (bufMapAtSend env) (peerWrite env)
                             payload tsEpoch (Brightness metrics))))"

fun sellerLoop ::
  "platform \<Rightarrow> globals \<Rightarrow> neuronSeller \<Rightarrow> (wakeup \<times> sellerTickEnv) list \<Rightarrow> event list \<times> status" where
  "sellerLoop pf g s [] = ([], Running)"
| "sellerLoop pf g s (we # rest) =
     (case select (fst we) of
        None \<Rightarrow> sellerLoop pf g s rest
      | Some CaseDone \<Rightarrow> ([EvLog LogContextCancelled], Returned)
      | Some (CaseTick tick) \<Rightarrow>
          (sellerTick pf g s (snd we) tick @ fst (sellerLoop pf g s rest),
           snd (sellerLoop pf g s rest)))"

text \<open>\<^verbatim>\<open>handleSellerStream\<close>, with the deferred \<^verbatim>\<open>ticker.Stop()\<close> on return.\<close>

definition handleSellerStream ::
  "platform \<Rightarrow> globals \<Rightarrow> neuronSeller \<Rightarrow> (wakeup \<times> sellerTickEnv) list \<Rightarrow> event list \<times> status" where
  "handleSellerStream pf g s schedule =
     (if StreamInterval (cfg s) \<le>s 0 then ([], Panicked)
      else (let run = sellerLoop pf g s schedule
            in ([EvNewTicker (StreamInterval (cfg s)),
                 EvLog (LogStreamLoopRunning (StreamInterval (cfg s)))]
                @ fst run @ (if snd run = Returned then [EvTickerStop] else []),
                snd run)))"

subsection \<open>The HTTP stream loop\<close>

text \<open>
  What the world answers during one tick of \<^verbatim>\<open>streamHandler\<close>: the answer of the
  sensor and the outcome of writing a line to the response.
\<close>

record streamTickEnv =
  streamGet :: "string \<Rightarrow> error + httpResponse"
  respWrite :: "bytes \<Rightarrow> error option"

text \<open>
  \<^verbatim>\<open>enc.Encode(v)\<close> of a \<^verbatim>\<open>json.Encoder\<close>: marshal, append a newline, write. Nothing
  is written when marshalling fails.
\<close>

definition Encode :: "platform \<Rightarrow> (bytes \<Rightarrow> error option) \<Rightarrow> goval \<Rightarrow> event list \<times> error option" where
  "Encode pf write v =
     (case json_Marshal pf v of
        Inl err \<Rightarrow> ([], Some err)
      | Inr data \<Rightarrow> ([EvHttpWrite (data @ [CHR 0x0A])], write (data @ [CHR 0x0A])))"

text \<open>
  The body of \<^verbatim>\<open>case t := <-ticker.C\<close> of \<^verbatim>\<open>streamHandler\<close>. The flag tells whether
  the loop goes on (\<^verbatim>\<open>continue\<close>, or the end of the body) or the handler returns.
\<close>

definition streamPayload :: "platform \<Rightarrow> globals \<Rightarrow> (string \<times> goval) list \<Rightarrow> Time \<Rightarrow> goval" where
  "streamPayload pf g piMetrics t =
     GMap (mapOrder pf
       [(''ts'', mapIndex piMetrics ''ts''),
        (''brightness'', mapIndex piMetrics ''brightness''),
        (''seller_id'', GString (SellerID (sellerCfg g))),
        (''lat'', GFloat (Lat (sellerCfg g))),
        (''lon'', GFloat (Lon (sellerCfg g))),
        (''label'', GString (Label (sellerCfg g))),
        (''time_iso'', GString (Format_RFC3339 (UTC t)))])"

definition streamTick ::
  "platform \<Rightarrow> globals \<Rightarrow> streamTickEnv \<Rightarrow> Time \<Rightarrow> event list \<times> bool" where
  "streamTick pf g env t =
     (case fetchJSON (streamGet env) decode_map (PiBase (sellerCfg g) @ ''/metrics'') of
        (evs, Inl err) \<Rightarrow> (evs @ [EvLog (LogStreamFetchError err)], True)
      | (evs, Inr piMetrics) \<Rightarrow>
          (case Encode pf (respWrite env) (streamPayload pf g piMetrics t) of
             (wevs, Some err) \<Rightarrow> (evs @ wevs @ [EvLog (LogEncodeError err)], False)
           | (wevs, None) \<Rightarrow> (evs @ wevs @ [EvFlush], True)))"

fun streamLoop ::
  "platform \<Rightarrow> globals \<Rightarrow> (wakeup \<times> streamTickEnv) list \<Rightarrow> event list \<times> status" where
  "streamLoop pf g [] = ([], Running)"
| "streamLoop pf g (we # rest) =
     (case select (fst we) of
        None \<Rightarrow> streamLoop pf g rest
      | Some CaseDone \<Rightarrow> ([EvLog LogClientDisconnected], Returned)
      | Some (CaseTick t) \<Rightarrow>
          (if snd (streamTick pf g (snd we) t)
           then (fst (streamTick pf g (snd we) t) @ fst (streamLoop pf g rest),
                 snd (streamLoop pf g rest))
           else (fst (streamTick pf g (snd we) t), Returned)))"

text \<open>
  \<^verbatim>\<open>streamHandler\<close>. \<open>flusher\<close> tells whether the response writer is an
  \<^verbatim>\<open>http.Flusher\<close>. The ticker's interval is the constant of the source.
\<close>

definition streamHandler ::
  "platform \<Rightarrow> globals \<Rightarrow> bool \<Rightarrow> (wakeup \<times> streamTickEnv) list \<Rightarrow> event list \<times> status" where
  "streamHandler pf g flusher schedule =
     (if \<not> flusher
      then ([EvSetHeader ''Content-Type'' ''application/x-ndjson; charset=utf-8'',
             EvHttpError ''streaming not supported'' 500], Returned)
      else (let run = streamLoop pf g schedule
            in ([EvSetHeader ''Content-Type'' ''application/x-ndjson; charset=utf-8'',
                 EvLog LogClientConnected,
                 EvNewTicker (5 * Second)]
                @ fst run @ (if snd run = Returned then [EvTickerStop] else []),
                snd run)))"

subsection \<open>Reading a run\<close>

text \<open>
  A peer sink is eligible when its transport state is \<^verbatim>\<open>Connected\<close> and its account is
  validated: the negation of the guard that makes \<^verbatim>\<open>broadcastSample\<close> skip an entry.
\<close>

definition eligible :: "BufferInfo \<Rightarrow> bool" where
  "eligible b = (LibP2PState b = Connected \<and> IsOtherSideValidAccount b)"

text \<open>The peer writes of a run, the peers reported as failed, and the error notices sent.\<close>

definition peerWrites :: "event list \<Rightarrow> (peerID \<times> bytes) list" where
  "peerWrites evs =
     List.map_filter (\<lambda>e. case e of EvPeerWrite p line proto \<Rightarrow> Some (p, line) | _ \<Rightarrow> None) evs"

definition failedPeers :: "event list \<Rightarrow> peerID list" where
  "failedPeers evs =
     List.map_filter (\<lambda>e. case e of EvLog (LogWriteFailed p err) \<Rightarrow> Some p | _ \<Rightarrow> None) evs"

definition errorNotices :: "event list \<Rightarrow> (string \<times> string \<times> error) list" where
  "errorNotices evs =
     List.map_filter
       (\<lambda>e. case e of EvPeerSendError topic seller err \<Rightarrow> Some (topic, seller, err) | _ \<Rightarrow> None) evs"

definition streamedPeers :: "event list \<Rightarrow> peerID list" where
  "streamedPeers evs =
     List.map_filter (\<lambda>e. case e of EvLog (LogStreamed b ts p) \<Rightarrow> Some p | _ \<Rightarrow> None) evs"

text \<open>The sensor requests, the lines written to the HTTP response and the tickers of a run.\<close>

definition httpGets :: "event list \<Rightarrow> string list" where
  "httpGets evs = List.map_filter (\<lambda>e. case e of EvHttpGet url \<Rightarrow> Some url | _ \<Rightarrow> None) evs"

definition httpWrites :: "event list \<Rightarrow> bytes list" where
  "httpWrites evs = List.map_filter (\<lambda>e. case e of EvHttpWrite b \<Rightarrow> Some b | _ \<Rightarrow> None) evs"

definition tickers :: "event list \<Rightarrow> Duration list" where
  "tickers evs = List.map_filter (\<lambda>e. case e of EvNewTicker d \<Rightarrow> Some d | _ \<Rightarrow> None) evs"

text \<open>
  The text of a JSON object whose members are printed in the given order, as
  \<^const>\<open>render\<close> prints them once they are sorted.
\<close>

definition objectText :: "platform \<Rightarrow> (string \<times> goval) list \<Rightarrow> bytes" where
  "objectText pf members =
     ''{'' @ commaSep (map (\<lambda>kv. fmtString pf (fst kv) @ '':'' @ render pf (snd kv)) members) @ ''}''"

definition isFinite :: "float64 \<Rightarrow> bool" where
  "isFinite f = (case f of Finite r \<Rightarrow> True | _ \<Rightarrow> False)"

text \<open>
  The epoch that \<^verbatim>\<open>buildSamplePayload\<close> settles on (its \<^verbatim>\<open>if tsEpoch > 0 ... else\<close>), and
  the members of the envelope it marshals, in the order of their keys.
\<close>

definition normalizedEpoch :: "platform \<Rightarrow> Time \<Rightarrow> piMetrics \<Rightarrow> int64" where
  "normalizedEpoch pf now m =
     (if 0 <s int64_of_float64 pf (Ts m) then int64_of_float64 pf (Ts m) else unixSec now)"

definition envelope :: "SellerConfig \<Rightarrow> string \<Rightarrow> float64 \<Rightarrow> int64 \<Rightarrow> string \<Rightarrow> (string \<times> goval) list" where
  "envelope sc kind brightness ts isoText =
     [(''brightness'', GFloat brightness),
      (''kind'', GString kind),
      (''label'', GString (Label sc)),
      (''lat'', GFloat (Lat sc)),
      (''lon'', GFloat (Lon sc)),
      (''seller_id'', GString (SellerID sc)),
      (''source'', GString (SellerID sc)),
      (''ts'', GInt ts),
      (''ts_iso'', GString isoText)]"

text \<open>
  The members of the object that \<^verbatim>\<open>streamHandler\<close> encodes, in the order of their keys.
\<close>

definition streamEnvelope :: "SellerConfig \<Rightarrow> goval \<Rightarrow> goval \<Rightarrow> string \<Rightarrow> (string \<times> goval) list" where
  "streamEnvelope sc ts brightness isoText =
     [(''brightness'', brightness),
      (''label'', GString (Label sc)),
      (''lat'', GFloat (Lat sc)),
      (''lon'', GFloat (Lon sc)),
      (''seller_id'', GString (SellerID sc)),
      (''time_iso'', GString isoText),
      (''ts'', ts)]"

subsection \<open>A concrete platform and concrete inputs\<close>

text \<open>
  For the evaluations below. The platform converts every unrepresentable float to the
  smallest \<^verbatim>\<open>int64\<close>, as the amd64 instruction does, iterates a map in the reverse of
  the order it was built in, and has a local zone of five and a half hours. Its two
  printers are right on the values used here: floats that are whole numbers of small
  magnitude, and strings that need no escape.
\<close>

definition quotePlain :: "string \<Rightarrow> string" where
  "quotePlain s = CHR 0x22 # s @ [CHR 0x22]"

definition fmtWhole :: "rat \<Rightarrow> string" where
  "fmtWhole r = formatInt \<lfloor>r\<rfloor>"

definition amd64 :: platform where
  "amd64 = \<lparr> convOutOfRange = (\<lambda>f. - 9223372036854775808), fmtFloat = fmtWhole,
             fmtString = quotePlain, mapOrder = rev, localZone = (\<lambda>sec. 19800) \<rparr>"

definition porch :: globals where
  "porch = \<lparr> sellerCfg = \<lparr> SellerID = ''pi-1'', PiBase = ''http://pi:8000'', Lat = Finite 51,
                           Lon = Finite (- 1), Label = ''porch'', Port = ''9000'' \<rparr>,
             neuronCfg = \<lparr> Enabled = True, Protocol = ''/localsense/brightness/v1'',
                           Version = ''0.1.0'', StreamInterval = 60 * Second,
                           SampleKind = ''brightness_sample'' \<rparr> \<rparr>"

definition seller :: neuronSeller where
  "seller = \<lparr> cfg = neuronCfg porch \<rparr>"

text \<open>2024-01-01T00:00:00Z, shown in a zone one hour east of UTC.\<close>

definition newYear :: Time where
  "newYear = \<lparr> unixSec = 1704067200, nanos = 250, zone = 3600 \<rparr>"

definition peerA :: "peerID \<times> BufferInfo" where
  "peerA = (''peerA'', \<lparr> LibP2PState = Connected, IsOtherSideValidAccount = True,
                        OtherStdInTopic = ''0.0.1001'' \<rparr>)"

definition peerB :: "peerID \<times> BufferInfo" where
  "peerB = (''peerB'', \<lparr> LibP2PState = OtherState ''Disconnected'', IsOtherSideValidAccount = True,
                        OtherStdInTopic = ''0.0.1002'' \<rparr>)"

definition peerC :: "peerID \<times> BufferInfo" where
  "peerC = (''peerC'', \<lparr> LibP2PState = Connected, IsOtherSideValidAccount = True,
                        OtherStdInTopic = ''0.0.1003'' \<rparr>)"

definition peerD :: "peerID \<times> BufferInfo" where
  "peerD = (''peerD'', \<lparr> LibP2PState = Connected, IsOtherSideValidAccount = False,
                        OtherStdInTopic = ''0.0.1004'' \<rparr>)"

text \<open>A sensor that answers 200 with the given JSON value.\<close>

definition answers :: "json \<Rightarrow> string \<Rightarrow> error + httpResponse" where
  "answers j url = Inr \<lparr> StatusCode = 200, Status = ''200 OK'', Body = Document j \<rparr>"

text \<open>The sensor's answer for a reading stamped \<open>t\<close>, of brightness 1.\<close>

definition reading :: "int \<Rightarrow> json" where
  "reading t = JObject [(''ts'', JNumber (InRange (of_int t))), (''brightness'', JNumber (InRange 1))]"

text \<open>Wake-ups: only the tick is ready; only the cancellation; both, the tick being picked.\<close>

definition tickOnly :: "Time \<Rightarrow> wakeup" where
  "tickOnly t = \<lparr> ctxDone = False, tickReady = Some t, pickTick = False \<rparr>"

definition doneOnly :: wakeup where
  "doneOnly = \<lparr> ctxDone = True, tickReady = None, pickTick = False \<rparr>"

definition bothTickPicked :: "Time \<Rightarrow> wakeup" where
  "bothTickPicked t = \<lparr> ctxDone = True, tickReady = Some t, pickTick = True \<rparr>"

definition bothDonePicked :: "Time \<Rightarrow> wakeup" where
  "bothDonePicked t = \<lparr> ctxDone = True, tickReady = Some t, pickTick = False \<rparr>"

text \<open>A tick of the peer loop that finds peer A and a healthy sensor stamping 0.\<close>

definition peerTickA :: sellerTickEnv where
  "peerTickA = \<lparr> bufMapAtCheck = [peerA], httpGet = answers (reading 0),
                 bufMapAtSend = [peerA], peerWrite = (\<lambda>p line. None) \<rparr>"

text \<open>Ticks of the HTTP stream: a healthy one, and one whose response writer is broken.\<close>

definition streamTickOk :: streamTickEnv where
  "streamTickOk = \<lparr> streamGet = answers (reading 0),
                    respWrite = (\<lambda>line. None) \<rparr>"

definition streamTickBroken :: streamTickEnv where
  "streamTickBroken = \<lparr> streamGet = answers (reading 0),
                        respWrite = (\<lambda>line. Some (ErrIO ''broken pipe'')) \<rparr>"

section \<open>Marshalling a map does not depend on the iteration order\<close>

lemma filter_key_single:
  "distinct (map f xs) \<Longrightarrow> k \<in> set xs \<Longrightarrow> filter (\<lambda>x. f k = f x) xs = [k]"
proof (induction xs)
  case Nil
  then show ?case by simp
next
  case (Cons a xs)
  show ?case
  proof (cases "k = a")
    case True
    have "filter (\<lambda>x. f a = f x) xs = []"
      using Cons.prems(1) by (auto simp: filter_empty_conv)
    with True show ?thesis by simp
  next
    case False
    with Cons.prems have kx: "k \<in> set xs" by simp
    then have "f k \<in> f ` set xs" by (rule imageI)
    with Cons.prems(1) have "f k \<noteq> f a" by auto
    with Cons kx show ?thesis by simp
  qed
qed

lemma sort_key_perm:
  assumes "mset ys = mset xs" and "distinct (map f xs)"
  shows "sort_key f ys = sort_key f xs"
proof (rule properties_for_sort_key)
  show "mset (sort_key f xs) = mset ys" using assms(1) by simp
  show "sorted (map f (sort_key f xs))" by simp
  fix k assume "k \<in> set (sort_key f xs)"
  then have kx: "k \<in> set xs" by simp
  then have ky: "k \<in> set ys" using assms(1) by (metis mset_eq_setD)
  have dy: "distinct (map f ys)"
    using assms by (metis distinct_map mset_eq_setD mset_eq_imp_distinct_iff)
  have ds: "distinct (map f (sort_key f xs))"
    using assms(2) by (simp add: distinct_map)
  have "filter (\<lambda>x. f k = f x) (sort_key f xs) = [k]"
    using ds kx by (intro filter_key_single) simp_all
  moreover have "filter (\<lambda>x. f k = f x) ys = [k]"
    using dy ky by (rule filter_key_single)
  ultimately show "filter (\<lambda>x. f k = f x) (sort_key f xs) = filter (\<lambda>x. f k = f x) ys"
    by simp
qed

lemma insort_key_keep_key:
  assumes "\<And>x. f' (h x) = f x"
  shows "insort_key f' (h x) (map h ys) = map h (insort_key f x ys)"
  by (induction ys) (simp_all add: assms)

lemma sort_key_keep_key:
  assumes "\<And>x. f' (h x) = f x"
  shows "sort_key f' (map h xs) = map h (sort_key f xs)"
proof (induction xs)
  case Nil
  show ?case by simp
next
  case (Cons x xs)
  have "insort_key f' (h x) (map h (sort_key f xs)) = map h (insort_key f x (sort_key f xs))"
    using assms by (rule insort_key_keep_key)
  with Cons show ?case by simp
qed

lemma render_map_any_order:
  assumes "platform_ok pf" and "distinct (map fst es)"
  shows "render pf (GMap (mapOrder pf es)) = objectText pf (sort_key fst es)"
proof -
  let ?h = "\<lambda>kv. (fst kv, render pf (snd kv))"
  have perm: "mset (mapOrder pf es) = mset es"
    using assms(1) by (simp add: platform_ok_def)
  have "mset (map ?h (mapOrder pf es)) = mset (map ?h es)"
    using perm by (metis mset_map)
  moreover have "distinct (map fst (map ?h es))"
    using assms(2) by (simp add: comp_def)
  ultimately have "sort_key fst (map ?h (mapOrder pf es)) = sort_key fst (map ?h es)"
    by (rule sort_key_perm)
  also have "\<dots> = map ?h (sort_key fst es)"
    using sort_key_keep_key [of fst ?h fst es] by simp
  finally show ?thesis
    by (simp add: objectText_def comp_def)
qed

lemma unsupported_map_any_order:
  assumes "platform_ok pf"
  shows "unsupported (GMap (mapOrder pf es)) = (\<exists>kv \<in> set es. unsupported (snd kv))"
proof -
  have "mset (mapOrder pf es) = mset es"
    using assms by (simp add: platform_ok_def)
  then have "set (mapOrder pf es) = set es"
    by (rule mset_eq_setD)
  then show ?thesis
    by (simp add: list_ex_iff)
qed

section \<open>What the envelope builder returns\<close>

lemma Format_RFC3339_UTC: "Format_RFC3339 (UTC t) = rfc3339 (sint (unixSec t)) 0"
  by (simp add: Format_RFC3339_def UTC_def)

lemma unixSec_UTC: "unixSec (UTC t) = unixSec t"
  by (simp add: UTC_def)

lemma envelope_keys_sorted:
  "sort_key fst
     [(''ts'', a), (''ts_iso'', b), (''brightness'', c), (''seller_id'', d), (''source'', e),
      (''label'', f), (''lat'', g), (''lon'', h), (''kind'', i)]
   = [(''brightness'', c), (''kind'', i), (''label'', f), (''lat'', g), (''lon'', h),
      (''seller_id'', d), (''source'', e), (''ts'', a), (''ts_iso'', b)]"
  by simp

lemma buildSamplePayload_result:
  assumes "platform_ok pf"
  shows "buildSamplePayload pf g s now (Some m) =
     (if isFinite (Brightness m) \<and> isFinite (Lat (sellerCfg g)) \<and> isFinite (Lon (sellerCfg g))
      then Inr (objectText pf
                  (envelope (sellerCfg g) (SampleKind (cfg s)) (Brightness m)
                     (normalizedEpoch pf now m)
                     (rfc3339 (sint (normalizedEpoch pf now m)) 0)),
                normalizedEpoch pf now m)
      else Inl (ErrMarshalPayload ErrUnsupportedValue))"
proof -
  let ?t0 = "int64_of_float64 pf (Ts m)"
  let ?ts = "normalizedEpoch pf now m"
  let ?es = "[(''ts'', GInt ?ts), (''ts_iso'', GString (rfc3339 (sint ?ts) 0)),
              (''brightness'', GFloat (Brightness m)),
              (''seller_id'', GString (SellerID (sellerCfg g))),
              (''source'', GString (SellerID (sellerCfg g))),
              (''label'', GString (Label (sellerCfg g))),
              (''lat'', GFloat (Lat (sellerCfg g))),
              (''lon'', GFloat (Lon (sellerCfg g))),
              (''kind'', GString (SampleKind (cfg s)))]"
  have unfolded: "buildSamplePayload pf g s now (Some m) =
      (case json_Marshal pf (GMap (mapOrder pf ?es)) of
         Inl err \<Rightarrow> Inl (ErrMarshalPayload err)
       | Inr data \<Rightarrow> Inr (data, ?ts))"
    by (cases "0 <s int64_of_float64 pf (Ts m)")
       (simp_all add: buildSamplePayload_def normalizedEpoch_def Unix_def Let_def
          Format_RFC3339_UTC time_Unix_def unixSec_UTC cong: sum.case_cong)
  have keys: "distinct (map fst ?es)"
    by simp
  have bad: "unsupported (GMap (mapOrder pf ?es)) =
      (\<not> (isFinite (Brightness m) \<and> isFinite (Lat (sellerCfg g)) \<and> isFinite (Lon (sellerCfg g))))"
    by (simp only: unsupported_map_any_order [OF assms])
       (auto simp: isFinite_def split: float64.splits)
  have rendered: "render pf (GMap (mapOrder pf ?es)) =
      objectText pf (envelope (sellerCfg g) (SampleKind (cfg s)) (Brightness m) ?ts
                       (rfc3339 (sint ?ts) 0))"
    by (simp only: render_map_any_order [OF assms keys] envelope_keys_sorted envelope_def)
  show ?thesis
    unfolding unfolded json_Marshal_def bad rendered by simp
qed

lemma buildSamplePayload_nil: "buildSamplePayload pf g s now None = Inl ErrNilMetrics"
  by (simp add: buildSamplePayload_def)

section \<open>The concrete platforms and instants\<close>

lemma platform_ok_amd64: "platform_ok amd64"
  by (simp add: platform_ok_def amd64_def)

lemma rfc3339_2023: "rfc3339 1700000000 0 = ''2023-11-14T22:13:20Z''"
  unfolding rfc3339_def civil_def appendInt_def
  by (simp add: decimal.simps cong: let_weak_cong)

lemma rfc3339_2024: "rfc3339 1704067200 0 = ''2024-01-01T00:00:00Z''"
  unfolding rfc3339_def civil_def appendInt_def
  by (simp add: decimal.simps cong: let_weak_cong)


section \<open>Configuration defaults\<close>

lemma five_seconds_positive: "0 <s (5 * Second :: Duration)"
  by (simp add: Second_def word_sless_alt)

lemma ensureDefaults_fields:
  "Enabled (ensureDefaults c) = Enabled c"
  "StreamInterval (ensureDefaults c) =
     (if StreamInterval c \<le>s 0 then 5 * Second else StreamInterval c)"
  "Protocol (ensureDefaults c) =
     (if Protocol c = [] then ''/localsense/brightness/v1'' else Protocol c)"
  "Version (ensureDefaults c) = (if Version c = [] then ''0.1.0'' else Version c)"
  "SampleKind (ensureDefaults c) =
     (if SampleKind c = [] then ''brightness_sample'' else SampleKind c)"
  by (simp_all add: ensureDefaults_def Let_def)

lemma ensureDefaults_valid:
  "0 <s StreamInterval (ensureDefaults c)"
  "Protocol (ensureDefaults c) \<noteq> []"
  "Version (ensureDefaults c) \<noteq> []"
  "SampleKind (ensureDefaults c) \<noteq> []"
proof -
  show "0 <s StreamInterval (ensureDefaults c)"
    using five_seconds_positive
    by (simp add: ensureDefaults_fields word_sless_alt word_sle_eq)
qed (simp_all add: ensureDefaults_fields)


text \<open>
  C8. Whatever configuration \<^verbatim>\<open>ensureDefaults\<close> is given, its result has a positive
  interval and non-empty protocol id, version and sample kind: an interval that is not
  positive becomes five seconds, an empty string becomes its fallback, and every other
  field, the enabled flag included, passes through unchanged. The configuration that
  \<^verbatim>\<open>loadNeuronSellerConfig\<close> returns went through \<^verbatim>\<open>ensureDefaults\<close>, so it has a positive
  interval and non-empty strings, for every environment and every behaviour of the
  library's parsers.
\<close>

theorem config_defaults:
  "0 <s StreamInterval (ensureDefaults c)
   \<and> Protocol (ensureDefaults c) \<noteq> []
   \<and> Version (ensureDefaults c) \<noteq> []
   \<and> SampleKind (ensureDefaults c) \<noteq> []
   \<and> StreamInterval (ensureDefaults c) =
       (if StreamInterval c \<le>s 0 then 5 * Second else StreamInterval c)
   \<and> Protocol (ensureDefaults c) =
       (if Protocol c = [] then ''/localsense/brightness/v1'' else Protocol c)
   \<and> Version (ensureDefaults c) = (if Version c = [] then ''0.1.0'' else Version c)
   \<and> SampleKind (ensureDefaults c) =
       (if SampleKind c = [] then ''brightness_sample'' else SampleKind c)
   \<and> Enabled (ensureDefaults c) = Enabled c
   \<and> sint (5 * Second) = 5000000000
   \<and> 0 <s StreamInterval (loadNeuronSellerConfig lib getenv)
   \<and> Protocol (loadNeuronSellerConfig lib getenv) \<noteq> []
   \<and> Version (loadNeuronSellerConfig lib getenv) \<noteq> []
   \<and> SampleKind (loadNeuronSellerConfig lib getenv) \<noteq> []"
proof -
  have "sint (5 * Second) = 5000000000"
    by (simp add: Second_def)
  moreover have "0 <s StreamInterval (loadNeuronSellerConfig lib getenv)"
    and "Protocol (loadNeuronSellerConfig lib getenv) \<noteq> []"
    and "Version (loadNeuronSellerConfig lib getenv) \<noteq> []"
    and "SampleKind (loadNeuronSellerConfig lib getenv) \<noteq> []"
    unfolding loadNeuronSellerConfig_def by (rule ensureDefaults_valid)+
  ultimately show ?thesis
    using ensureDefaults_valid [of c] ensureDefaults_fields [of c] by simp
qed

text \<open>
  An all-zero configuration gets the four defaults; one with an interval of two seconds
  and a protocol of its own keeps both.
\<close>

theorem config_defaults_witness:
  "ensureDefaults \<lparr> Enabled = False, Protocol = [], Version = [], StreamInterval = 0,
                    SampleKind = [] \<rparr> =
     \<lparr> Enabled = False, Protocol = ''/localsense/brightness/v1'', Version = ''0.1.0'',
       StreamInterval = 5000000000, SampleKind = ''brightness_sample'' \<rparr>
   \<and> ensureDefaults \<lparr> Enabled = True, Protocol = ''/mine/v2'', Version = [],
                    StreamInterval = 2 * Second, SampleKind = [] \<rparr> =
     \<lparr> Enabled = True, Protocol = ''/mine/v2'', Version = ''0.1.0'',
       StreamInterval = 2000000000, SampleKind = ''brightness_sample'' \<rparr>"
proof -
  have "\<not> (2 * Second :: Duration) \<le>s 0"
    by (simp add: Second_def word_sle_eq)
  then show ?thesis
    using
      config_defaults [of "\<lparr> Enabled = False, Protocol = [], Version = [], StreamInterval = 0,
                            SampleKind = [] \<rparr>"]
      config_defaults [of "\<lparr> Enabled = True, Protocol = ''/mine/v2'', Version = [],
                            StreamInterval = 2 * Second, SampleKind = [] \<rparr>"]
    by (simp add: neuronSellerConfig.equality Second_def)
qed


section \<open>Timestamp normalization\<close>

lemma trunc_positive_iff: "0 < trunc r \<longleftrightarrow> 0 < \<lfloor>r\<rfloor>"
proof (cases "0 \<le> r")
  case True
  then show ?thesis by (simp add: trunc_def)
next
  case False
  then have "r < 0" by simp
  then have "\<lceil>r\<rceil> \<le> 0" and "\<lfloor>r\<rfloor> < 0"
    by (simp_all add: ceiling_le_zero)
  with False show ?thesis by (simp add: trunc_def)
qed

lemma trunc_positive_eq_floor: "0 < \<lfloor>r\<rfloor> \<Longrightarrow> trunc r = \<lfloor>r\<rfloor>"
  by (cases "0 \<le> r") (simp_all add: trunc_def)

lemma sint_word_of_int_in_range:
  "- (2 ^ 63) \<le> z \<Longrightarrow> z < 2 ^ 63 \<Longrightarrow> sint (word_of_int z :: int64) = z"
  by (simp add: sint_sbintrunc' signed_take_bit_int_eq_self)

lemma int64_of_float64_in_range:
  assumes "- (2 ^ 63) \<le> trunc r" and "trunc r < 2 ^ 63"
  shows "int64_of_float64 pf (Finite r) = word_of_int (trunc r)"
    and "sint (int64_of_float64 pf (Finite r)) = trunc r"
proof -
  show "int64_of_float64 pf (Finite r) = word_of_int (trunc r)"
    using assms by (simp add: int64_of_float64_def)
  then show "sint (int64_of_float64 pf (Finite r)) = trunc r"
    by (simp only: sint_word_of_int_in_range [OF assms])
qed

lemma normalizedEpoch_in_range:
  assumes "Ts m = Finite r" and "- (2 ^ 63) \<le> trunc r" and "trunc r < 2 ^ 63"
  shows "normalizedEpoch pf now m = (if 0 < \<lfloor>r\<rfloor> then word_of_int \<lfloor>r\<rfloor> else unixSec now)"
proof -
  note conv = int64_of_float64_in_range [OF assms(2,3), of pf]
  have "0 <s int64_of_float64 pf (Ts m) \<longleftrightarrow> 0 < \<lfloor>r\<rfloor>"
    by (simp add: word_sless_alt assms(1) conv(2) trunc_positive_iff)
  moreover have "0 < \<lfloor>r\<rfloor> \<Longrightarrow> int64_of_float64 pf (Ts m) = word_of_int \<lfloor>r\<rfloor>"
    by (simp add: assms(1) conv(1) trunc_positive_eq_floor)
  ultimately show ?thesis
    by (simp add: normalizedEpoch_def)
qed

text \<open>
  C1, as the code has it. Take a reading whose timestamp is finite and, truncated, an
  \<^verbatim>\<open>int64\<close>, and let \<open>t\<close> be the floor of the timestamp. An envelope is built exactly
  when brightness, latitude and longitude are finite. If \<open>t > 0\<close>, its \<open>ts\<close> is \<open>t\<close>
  and its \<open>ts_iso\<close> is the RFC 3339 text of \<open>t\<close> in UTC; otherwise \<open>ts\<close> is the epoch
  second of \<open>now\<close> and \<open>ts_iso\<close> the RFC 3339 text of \<open>now\<close> in UTC, whatever zone
  \<open>now\<close> is shown in. The second component of the result is the same epoch.
\<close>

theorem timestamp_normalization:
  assumes "platform_ok pf"
    and "Ts m = Finite r" and "- (2 ^ 63) \<le> trunc r" and "trunc r < 2 ^ 63"
  shows "(0 < \<lfloor>r\<rfloor> \<longrightarrow>
            buildSamplePayload pf g s now (Some m) =
              (if isFinite (Brightness m) \<and> isFinite (Lat (sellerCfg g))
                  \<and> isFinite (Lon (sellerCfg g))
               then Inr (objectText pf
                           (envelope (sellerCfg g) (SampleKind (cfg s)) (Brightness m)
                              (word_of_int \<lfloor>r\<rfloor>) (rfc3339 \<lfloor>r\<rfloor> 0)),
                         word_of_int \<lfloor>r\<rfloor>)
               else Inl (ErrMarshalPayload ErrUnsupportedValue))
            \<and> sint (word_of_int \<lfloor>r\<rfloor> :: int64) = \<lfloor>r\<rfloor>)
       \<and> (\<lfloor>r\<rfloor> \<le> 0 \<longrightarrow>
            buildSamplePayload pf g s now (Some m) =
              (if isFinite (Brightness m) \<and> isFinite (Lat (sellerCfg g))
                  \<and> isFinite (Lon (sellerCfg g))
               then Inr (objectText pf
                           (envelope (sellerCfg g) (SampleKind (cfg s)) (Brightness m)
                              (unixSec now) (rfc3339 (sint (unixSec now)) 0)),
                         unixSec now)
               else Inl (ErrMarshalPayload ErrUnsupportedValue)))"
proof (intro conjI impI)
  assume pos: "0 < \<lfloor>r\<rfloor>"
  then have "trunc r = \<lfloor>r\<rfloor>"
    by (rule trunc_positive_eq_floor)
  with sint_word_of_int_in_range [OF assms(3,4)]
  show sint: "sint (word_of_int \<lfloor>r\<rfloor> :: int64) = \<lfloor>r\<rfloor>"
    by simp
  have "normalizedEpoch pf now m = word_of_int \<lfloor>r\<rfloor>"
    using pos by (simp add: normalizedEpoch_in_range [OF assms(2,3,4)])
  with sint show "buildSamplePayload pf g s now (Some m) =
      (if isFinite (Brightness m) \<and> isFinite (Lat (sellerCfg g)) \<and> isFinite (Lon (sellerCfg g))
       then Inr (objectText pf
                   (envelope (sellerCfg g) (SampleKind (cfg s)) (Brightness m)
                      (word_of_int \<lfloor>r\<rfloor>) (rfc3339 \<lfloor>r\<rfloor> 0)),
                 word_of_int \<lfloor>r\<rfloor>)
       else Inl (ErrMarshalPayload ErrUnsupportedValue))"
    by (simp add: buildSamplePayload_result [OF assms(1)])
next
  assume "\<lfloor>r\<rfloor> \<le> 0"
  then have "normalizedEpoch pf now m = unixSec now"
    by (simp add: normalizedEpoch_in_range [OF assms(2,3,4)])
  then show "buildSamplePayload pf g s now (Some m) =
      (if isFinite (Brightness m) \<and> isFinite (Lat (sellerCfg g)) \<and> isFinite (Lon (sellerCfg g))
       then Inr (objectText pf
                   (envelope (sellerCfg g) (SampleKind (cfg s)) (Brightness m)
                      (unixSec now) (rfc3339 (sint (unixSec now)) 0)),
                 unixSec now)
       else Inl (ErrMarshalPayload ErrUnsupportedValue))"
    by (simp add: buildSamplePayload_result [OF assms(1)])
qed

text \<open>
  The two scenarios of the design document: a reading stamped 1700000000 keeps its
  stamp, and a reading stamped 0, built at 2024-01-01T00:00:00Z, gets that instant.
\<close>

theorem timestamp_normalization_witness:
  "buildSamplePayload amd64 porch seller newYear
       (Some \<lparr> Ts = Finite 1700000000, Brightness = Finite 1 \<rparr>) =
     Inr (objectText amd64
            (envelope (sellerCfg porch) ''brightness_sample'' (Finite 1)
               1700000000 ''2023-11-14T22:13:20Z''),
          1700000000)
   \<and> buildSamplePayload amd64 porch seller newYear
       (Some \<lparr> Ts = Finite 0, Brightness = Finite 1 \<rparr>) =
     Inr (objectText amd64
            (envelope (sellerCfg porch) ''brightness_sample'' (Finite 1)
               1704067200 ''2024-01-01T00:00:00Z''),
          1704067200)"
proof -
  have fin: "isFinite (Finite 1)" "isFinite (Lat (sellerCfg porch))" "isFinite (Lon (sellerCfg porch))"
    by (simp_all add: isFinite_def porch_def)
  have kind: "SampleKind (cfg seller) = ''brightness_sample''"
    by (simp add: seller_def porch_def)
  have now: "unixSec newYear = 1704067200"
    by (simp add: newYear_def)
  have "trunc 1700000000 = 1700000000" and "trunc 0 = 0"
    by (simp_all add: trunc_def)
  then have one: "buildSamplePayload amd64 porch seller newYear
       (Some \<lparr> Ts = Finite 1700000000, Brightness = Finite 1 \<rparr>) =
     Inr (objectText amd64
            (envelope (sellerCfg porch) ''brightness_sample'' (Finite 1)
               1700000000 ''2023-11-14T22:13:20Z''),
          1700000000)"
    using timestamp_normalization
      [of amd64 "\<lparr> Ts = Finite 1700000000, Brightness = Finite 1 \<rparr>" 1700000000
          porch seller newYear]
    by (simp add: platform_ok_amd64 fin kind rfc3339_2023)
  have two: "buildSamplePayload amd64 porch seller newYear
       (Some \<lparr> Ts = Finite 0, Brightness = Finite 1 \<rparr>) =
     Inr (objectText amd64
            (envelope (sellerCfg porch) ''brightness_sample'' (Finite 1)
               1704067200 ''2024-01-01T00:00:00Z''),
          1704067200)"
    using timestamp_normalization
      [of amd64 "\<lparr> Ts = Finite 0, Brightness = Finite 1 \<rparr>" 0 porch seller newYear]
      \<open>trunc 0 = 0\<close>
    by (simp add: platform_ok_amd64 fin kind now rfc3339_2024)
  from one two show ?thesis ..
qed

text \<open>
  Where C1 fails as stated. A sensor may report \<open>ts = 9223372036854775808\<close> (two to
  the 63, a \<^verbatim>\<open>float64\<close>). Its floor is positive, yet no \<^verbatim>\<open>int64\<close> equals it: on any
  platform the envelope's \<open>ts\<close> differs from it. On this platform the conversion
  yields the smallest \<^verbatim>\<open>int64\<close>, and the envelope carries the time of \<open>now\<close>.
\<close>

lemma no_int64_is_two_to_63:
  assumes "buildSamplePayload pf g s now (Some m) = Inr (data, ts)"
  shows "sint ts \<noteq> \<lfloor>9223372036854775808 :: rat\<rfloor>"
proof -
  have "sint ts < 2 ^ (LENGTH(64) - 1)"
    by (rule sint_lt)
  then show ?thesis by simp
qed

theorem timestamp_normalization_counterexample:
  "0 < \<lfloor>9223372036854775808 :: rat\<rfloor>
   \<and> buildSamplePayload amd64 porch seller newYear
       (Some \<lparr> Ts = Finite 9223372036854775808, Brightness = Finite 1 \<rparr>) =
     Inr (objectText amd64
            (envelope (sellerCfg porch) ''brightness_sample'' (Finite 1)
               1704067200 ''2024-01-01T00:00:00Z''),
          1704067200)"
proof -
  have "trunc 9223372036854775808 = 9223372036854775808"
    by (simp add: trunc_def)
  then have "int64_of_float64 amd64 (Finite 9223372036854775808) = - 9223372036854775808"
    by (simp add: int64_of_float64_def amd64_def)
  then have "normalizedEpoch amd64 newYear
      \<lparr> Ts = Finite 9223372036854775808, Brightness = Finite 1 \<rparr> = 1704067200"
    by (simp add: normalizedEpoch_def word_sless_alt newYear_def)
  then show ?thesis
    by (simp add: buildSamplePayload_result [OF platform_ok_amd64] isFinite_def porch_def
        seller_def rfc3339_2024)
qed


section \<open>Determinism of the envelope builder\<close>

lemma objectText_envelope_cong:
  assumes "fmtFloat pf' = fmtFloat pf" and "fmtString pf' = fmtString pf"
  shows "objectText pf' (envelope sc kind b ts isoText) = objectText pf (envelope sc kind b ts isoText)"
  by (simp add: objectText_def envelope_def assms cong: float64.case_cong)

lemma normalizedEpoch_cong:
  assumes "convOutOfRange pf' = convOutOfRange pf"
  shows "normalizedEpoch pf' now m = normalizedEpoch pf now m"
proof -
  have "int64_of_float64 pf' (Ts m) = int64_of_float64 pf (Ts m)"
    by (cases "Ts m") (simp_all add: int64_of_float64_def assms)
  then show ?thesis
    by (simp add: normalizedEpoch_def)
qed

text \<open>
  C9. The result of \<^verbatim>\<open>buildSamplePayload\<close>, bytes and epoch, is a function of the
  identity (seller id, label, latitude, longitude), the reading, the sample kind and
  \<open>now\<close> alone: two calls that agree on these return the same result, whatever the
  other fields of the two configurations are, in whatever order the runtime iterates
  over the payload map in each call, and whatever the local time zone is. (Both calls
  run on one machine: the float-to-integer conversion and the printers are the same.)
\<close>

theorem envelope_builder_deterministic:
  assumes "platform_ok pf" and "platform_ok pf'"
    and "convOutOfRange pf' = convOutOfRange pf"
    and "fmtFloat pf' = fmtFloat pf" and "fmtString pf' = fmtString pf"
    and "SellerID (sellerCfg g') = SellerID (sellerCfg g)"
    and "Label (sellerCfg g') = Label (sellerCfg g)"
    and "Lat (sellerCfg g') = Lat (sellerCfg g)"
    and "Lon (sellerCfg g') = Lon (sellerCfg g)"
    and "SampleKind (cfg s') = SampleKind (cfg s)"
  shows "buildSamplePayload pf' g' s' now metrics = buildSamplePayload pf g s now metrics"
proof (cases metrics)
  case None
  then show ?thesis by (simp add: buildSamplePayload_nil)
next
  case (Some m)
  have members: "envelope (sellerCfg g') = envelope (sellerCfg g)"
    using assms(6-9) by (simp add: envelope_def fun_eq_iff)
  show ?thesis
    unfolding Some buildSamplePayload_result [OF assms(1)] buildSamplePayload_result [OF assms(2)]
    by (simp add: members assms(6-10) normalizedEpoch_cong [OF assms(3)]
        objectText_envelope_cong [OF assms(4,5)])
qed

text \<open>
  Two calls for one reading at one instant: the second on a runtime that iterates the map
  in the opposite order and sits in another time zone, with another sensor URL, port,
  protocol and interval.
\<close>

theorem envelope_builder_deterministic_witness:
  "buildSamplePayload (amd64\<lparr> mapOrder := (\<lambda>kvs. kvs), localZone := (\<lambda>sec. 0) \<rparr>)
       (porch\<lparr> sellerCfg := (sellerCfg porch)\<lparr> PiBase := ''http://10.0.0.7'', Port := ''80'' \<rparr> \<rparr>)
       \<lparr> cfg = (cfg seller)\<lparr> Protocol := ''/other/v9'', StreamInterval := Second \<rparr> \<rparr>
       newYear (Some \<lparr> Ts = Finite 1700000000, Brightness = Finite 1 \<rparr>)
   = buildSamplePayload amd64 porch seller newYear
       (Some \<lparr> Ts = Finite 1700000000, Brightness = Finite 1 \<rparr>)"
proof -
  have "platform_ok (amd64\<lparr> mapOrder := (\<lambda>kvs. kvs), localZone := (\<lambda>sec. 0) \<rparr>)"
    by (simp add: platform_ok_def)
  then show ?thesis
    by (intro envelope_builder_deterministic platform_ok_amd64) simp_all
qed


section \<open>Fan-out to the peers\<close>

lemma map_filter_append: "List.map_filter f (xs @ ys) = List.map_filter f xs @ List.map_filter f ys"
  by (simp add: List.map_filter_def)

lemma broadcastRange_eligible_only:
  "broadcastRange g s write line ts b bm =
   broadcastRange g s write line ts b (filter (\<lambda>e. eligible (snd e)) bm)"
  by (induction bm) (auto simp: eligible_def Let_def split: option.splits)

lemma peerWrites_broadcastRange:
  "peerWrites (broadcastRange g s write line ts b bm) =
   map (\<lambda>e. (fst e, line)) (filter (\<lambda>e. eligible (snd e)) bm)"
  by (induction bm)
     (auto simp: peerWrites_def eligible_def Let_def List.map_filter_simps split: option.splits)

lemma failedPeers_broadcastRange:
  "failedPeers (broadcastRange g s write line ts b bm) =
   map fst (filter (\<lambda>e. eligible (snd e) \<and> write (fst e) line \<noteq> None) bm)"
  by (induction bm)
     (auto simp: failedPeers_def eligible_def Let_def List.map_filter_simps split: option.splits)

lemma errorNotices_broadcastRange:
  "errorNotices (broadcastRange g s write line ts b bm) =
   map (\<lambda>e. (OtherStdInTopic (snd e), SellerID (sellerCfg g), the (write (fst e) line)))
     (filter (\<lambda>e. eligible (snd e) \<and> write (fst e) line \<noteq> None) bm)"
  by (induction bm)
     (auto simp: errorNotices_def eligible_def Let_def List.map_filter_simps split: option.splits)

lemma streamedPeers_broadcastRange:
  "streamedPeers (broadcastRange g s write line ts b bm) =
   map fst (filter (\<lambda>e. eligible (snd e) \<and> write (fst e) line = None) bm)"
  by (induction bm)
     (auto simp: streamedPeers_def eligible_def Let_def List.map_filter_simps split: option.splits)

lemma httpGets_broadcastRange: "httpGets (broadcastRange g s write line ts b bm) = []"
  by (induction bm) (auto simp: httpGets_def Let_def List.map_filter_simps split: option.splits)

lemma only_entry_of_peer:
  assumes "distinct (map fst bm)" and "(k, bk) \<in> set bm"
  shows "filter (\<lambda>e. fst e = k) bm = [(k, bk)]"
proof -
  have "filter (\<lambda>e. fst (k, bk) = fst e) bm = [(k, bk)]"
    using assms by (rule filter_key_single)
  then have "filter (\<lambda>e. k = fst e) bm = [(k, bk)]"
    by simp
  moreover have "filter (\<lambda>e. fst e = k) bm = filter (\<lambda>e. k = fst e) bm"
    by (rule filter_cong) auto
  ultimately show ?thesis by simp
qed

text \<open>
  C2. In one broadcast over a peer map (one entry per peer), let the write to an eligible
  peer \<open>k\<close> fail and every other write succeed. Then:
  \<^item> the peers written to are exactly the eligible entries of the map, each once, in the
    order of the iteration, and each is handed the same bytes, the payload and a newline;
  \<^item> the run is the run on the eligible entries alone: an entry that is not connected or
    not validated leaves no trace, not even a log line;
  \<^item> \<open>k\<close> is the only peer reported as failed, and one error notice is sent, to the
    control topic of \<open>k\<close>;
  \<^item> every other eligible peer is logged as streamed to.
\<close>

theorem fan_out_isolation:
  assumes "distinct (map fst bufferMap)"
    and "(k, bk) \<in> set bufferMap" and "eligible bk"
    and "write k (payload @ [CHR 0x0A]) = Some err"
    and "\<forall>p. p \<noteq> k \<longrightarrow> write p (payload @ [CHR 0x0A]) = None"
  shows "peerWrites (broadcastSample g s bufferMap write payload ts b) =
           map (\<lambda>e. (fst e, payload @ [CHR 0x0A])) (filter (\<lambda>e. eligible (snd e)) bufferMap)
       \<and> broadcastSample g s bufferMap write payload ts b =
           broadcastSample g s (filter (\<lambda>e. eligible (snd e)) bufferMap) write payload ts b
       \<and> failedPeers (broadcastSample g s bufferMap write payload ts b) = [k]
       \<and> errorNotices (broadcastSample g s bufferMap write payload ts b) =
           [(OtherStdInTopic bk, SellerID (sellerCfg g), err)]
       \<and> streamedPeers (broadcastSample g s bufferMap write payload ts b) =
           map fst (filter (\<lambda>e. eligible (snd e) \<and> fst e \<noteq> k) bufferMap)"
proof -
  let ?line = "payload @ [CHR 0x0A]"
  have fails: "write p ?line \<noteq> None \<longleftrightarrow> p = k" for p
    using assms(4,5) by (cases "p = k") auto
  have "filter (\<lambda>e. eligible (snd e) \<and> write (fst e) ?line \<noteq> None) bufferMap =
        filter (\<lambda>e. eligible (snd e)) (filter (\<lambda>e. fst e = k) bufferMap)"
    unfolding filter_filter by (rule filter_cong) (use fails in auto)
  also have "\<dots> = [(k, bk)]"
    using assms(3) by (simp add: only_entry_of_peer [OF assms(1,2)])
  finally have failing:
    "filter (\<lambda>e. eligible (snd e) \<and> write (fst e) ?line \<noteq> None) bufferMap = [(k, bk)]" .
  have succeeding:
    "filter (\<lambda>e. eligible (snd e) \<and> write (fst e) ?line = None) bufferMap =
     filter (\<lambda>e. eligible (snd e) \<and> fst e \<noteq> k) bufferMap"
    using assms(4,5) by (intro filter_cong refl) auto
  have same: "broadcastSample g s bufferMap write payload ts b =
        broadcastSample g s (filter (\<lambda>e. eligible (snd e)) bufferMap) write payload ts b"
    unfolding broadcastSample_def Let_def by (rule broadcastRange_eligible_only)
  have written: "peerWrites (broadcastSample g s bufferMap write payload ts b) =
      map (\<lambda>e. (fst e, ?line)) (filter (\<lambda>e. eligible (snd e)) bufferMap)"
    unfolding broadcastSample_def Let_def by (rule peerWrites_broadcastRange)
  have failed: "failedPeers (broadcastSample g s bufferMap write payload ts b) = [k]"
    unfolding broadcastSample_def Let_def failedPeers_broadcastRange failing by simp
  have noticed: "errorNotices (broadcastSample g s bufferMap write payload ts b) =
      [(OtherStdInTopic bk, SellerID (sellerCfg g), err)]"
    unfolding broadcastSample_def Let_def errorNotices_broadcastRange failing
    using assms(4) by simp
  have streamed: "streamedPeers (broadcastSample g s bufferMap write payload ts b) =
      map fst (filter (\<lambda>e. eligible (snd e) \<and> fst e \<noteq> k) bufferMap)"
    unfolding broadcastSample_def Let_def streamedPeers_broadcastRange succeeding by simp
  from written same failed noticed streamed show ?thesis
    by (intro conjI)
qed

text \<open>
  Four entries: A and C are eligible, B is not connected, D is not validated; the write to
  C fails. A and C are written the same line, C alone is reported and notified, A is
  logged as streamed to, and B and D leave no trace.
\<close>

theorem fan_out_isolation_witness:
  "peerWrites (broadcastSample porch seller [peerA, peerB, peerC, peerD]
       (\<lambda>p line. if p = ''peerC'' then Some (ErrIO ''stream reset'') else None)
       ''{}'' 1704067200 (Finite 1)) =
     [(''peerA'', ''{}'' @ [CHR 0x0A]), (''peerC'', ''{}'' @ [CHR 0x0A])]
   \<and> broadcastSample porch seller [peerA, peerB, peerC, peerD]
       (\<lambda>p line. if p = ''peerC'' then Some (ErrIO ''stream reset'') else None)
       ''{}'' 1704067200 (Finite 1) =
     broadcastSample porch seller [peerA, peerC]
       (\<lambda>p line. if p = ''peerC'' then Some (ErrIO ''stream reset'') else None)
       ''{}'' 1704067200 (Finite 1)
   \<and> failedPeers (broadcastSample porch seller [peerA, peerB, peerC, peerD]
       (\<lambda>p line. if p = ''peerC'' then Some (ErrIO ''stream reset'') else None)
       ''{}'' 1704067200 (Finite 1)) = [''peerC'']
   \<and> errorNotices (broadcastSample porch seller [peerA, peerB, peerC, peerD]
       (\<lambda>p line. if p = ''peerC'' then Some (ErrIO ''stream reset'') else None)
       ''{}'' 1704067200 (Finite 1)) = [(''0.0.1003'', ''pi-1'', ErrIO ''stream reset'')]
   \<and> streamedPeers (broadcastSample porch seller [peerA, peerB, peerC, peerD]
       (\<lambda>p line. if p = ''peerC'' then Some (ErrIO ''stream reset'') else None)
       ''{}'' 1704067200 (Finite 1)) = [''peerA'']"
proof -
  have el: "eligible (snd peerA)" "\<not> eligible (snd peerB)" "eligible (snd peerC)"
    "\<not> eligible (snd peerD)"
    by (simp_all add: eligible_def peerA_def peerB_def peerC_def peerD_def)
  have ids: "fst peerA = ''peerA''" "fst peerB = ''peerB''" "fst peerC = ''peerC''"
    "fst peerD = ''peerD''"
    by (simp_all add: peerA_def peerB_def peerC_def peerD_def)
  have c: "peerC = (''peerC'', snd peerC)" "OtherStdInTopic (snd peerC) = ''0.0.1003''"
    by (simp_all add: peerC_def)
  have sid: "SellerID (sellerCfg porch) = ''pi-1''"
    by (simp add: porch_def)
  have all: "filter (\<lambda>e. eligible (snd e)) [peerA, peerB, peerC, peerD] = [peerA, peerC]"
    by (simp add: el)
  have others: "filter (\<lambda>e. eligible (snd e) \<and> fst e \<noteq> ''peerC'')
      [peerA, peerB, peerC, peerD] = [peerA]"
    by (simp add: el ids)
  have h1: "distinct (map fst [peerA, peerB, peerC, peerD])"
    by (simp add: ids)
  have h2: "(''peerC'', snd peerC) \<in> set [peerA, peerB, peerC, peerD]"
    using c(1) by simp
  have h4: "(if ''peerC'' = ''peerC'' then Some (ErrIO ''stream reset'') else None) =
      Some (ErrIO ''stream reset'')"
    by simp
  have h5: "\<forall>p. p \<noteq> ''peerC'' \<longrightarrow>
      (if p = ''peerC'' then Some (ErrIO ''stream reset'') else None) = None"
    by simp
  from fan_out_isolation
    [of "[peerA, peerB, peerC, peerD]" "''peerC''" "snd peerC"
        "\<lambda>p line. if p = ''peerC'' then Some (ErrIO ''stream reset'') else None"
        "''{}''" "ErrIO ''stream reset''" porch seller 1704067200 "Finite 1",
     OF h1 h2 el(3) h4 h5]
  show ?thesis
    unfolding all others c(2) sid list.map ids .
qed


section \<open>One tick of the peer loop\<close>

lemma fetchPiMetrics_events:
  "fst (fetchPiMetrics g get) =
     (if PiBase (sellerCfg g) = [] then [] else [EvHttpGet (PiBase (sellerCfg g) @ ''/metrics'')])"
  by (simp add: fetchPiMetrics_def fetchJSON_def)

lemma sellerTick_unfold:
  "sellerTick pf g s env tick =
     (if bufMapAtCheck env = [] then []
      else fst (fetchPiMetrics g (httpGet env)) @
        (case snd (fetchPiMetrics g (httpGet env)) of
           Inl err \<Rightarrow> [EvLog (LogFetchFailed err)]
         | Inr m \<Rightarrow>
             (case buildSamplePayload pf g s tick (Some m) of
                Inl err \<Rightarrow> [EvLog (LogBuildFailed err)]
              | Inr r \<Rightarrow> broadcastSample g s (bufMapAtSend env) (peerWrite env)
                          (fst r) (snd r) (Brightness m))))"
  by (simp add: sellerTick_def split: prod.splits sum.splits)

lemma peerWrites_broadcastSample:
  "peerWrites (broadcastSample g s bm write payload ts b) =
     map (\<lambda>e. (fst e, payload @ [CHR 0x0A])) (filter (\<lambda>e. eligible (snd e)) bm)"
  by (simp add: broadcastSample_def peerWrites_broadcastRange)

lemma peerWrites_sellerTick:
  "peerWrites (sellerTick pf g s env tick) =
     (if bufMapAtCheck env = [] then []
      else (case snd (fetchPiMetrics g (httpGet env)) of
              Inl err \<Rightarrow> []
            | Inr m \<Rightarrow>
                (case buildSamplePayload pf g s tick (Some m) of
                   Inl err \<Rightarrow> []
                 | Inr r \<Rightarrow> map (\<lambda>e. (fst e, fst r @ [CHR 0x0A]))
                             (filter (\<lambda>e. eligible (snd e)) (bufMapAtSend env)))))"
proof -
  have none: "peerWrites (fst (fetchPiMetrics g (httpGet env))) = []"
    by (simp add: fetchPiMetrics_events peerWrites_def List.map_filter_simps)
  have app: "peerWrites (xs @ ys) = peerWrites xs @ peerWrites ys" for xs ys
    by (simp add: peerWrites_def map_filter_append)
  show ?thesis
    by (simp add: sellerTick_unfold app none peerWrites_broadcastSample
        split: sum.splits)
       (simp add: peerWrites_def List.map_filter_simps)
qed

lemma httpGets_sellerTick:
  "httpGets (sellerTick pf g s env tick) =
     (if bufMapAtCheck env = [] \<or> PiBase (sellerCfg g) = [] then []
      else [PiBase (sellerCfg g) @ ''/metrics''])"
proof -
  have app: "httpGets (xs @ ys) = httpGets xs @ httpGets ys" for xs ys
    by (simp add: httpGets_def map_filter_append)
  have bs: "httpGets (broadcastSample g s bm wr pl t b) = []" for bm wr pl t b
    by (simp add: broadcastSample_def httpGets_broadcastRange)
  have logs: "httpGets [EvLog l] = []" for l
    by (simp add: httpGets_def List.map_filter_simps)
  have gets: "httpGets (fst (fetchPiMetrics g (httpGet env))) =
      (if PiBase (sellerCfg g) = [] then [] else [PiBase (sellerCfg g) @ ''/metrics''])"
    by (simp add: fetchPiMetrics_events httpGets_def List.map_filter_simps)
  have nil: "httpGets [] = []"
    by (simp add: httpGets_def List.map_filter_simps)
  show ?thesis
    by (simp add: sellerTick_unfold app bs logs gets nil split: sum.splits)
qed

section \<open>The concrete sensor and readings\<close>

lemma decode_reading:
  "decode_piMetrics (reading t) = Inr \<lparr> Ts = Finite (of_int t), Brightness = Finite 1 \<rparr>"
  by (simp add: decode_piMetrics_def reading_def fieldFor_def storeFloat_def firstError_def)

lemma fetch_reading:
  "fetchPiMetrics porch (answers (reading t)) =
     ([EvHttpGet ''http://pi:8000/metrics''],
      Inr \<lparr> Ts = Finite (of_int t), Brightness = Finite 1 \<rparr>)"
  by (simp add: fetchPiMetrics_def fetchJSON_def Decode_def answers_def decode_reading porch_def)

lemma build_zero_reading:
  "buildSamplePayload amd64 porch seller newYear (Some \<lparr> Ts = Finite 0, Brightness = Finite 1 \<rparr>) =
     Inr (objectText amd64
            (envelope (sellerCfg porch) ''brightness_sample'' (Finite 1)
               1704067200 ''2024-01-01T00:00:00Z''),
          1704067200)"
proof -
  have "trunc 0 = 0"
    by (simp add: trunc_def)
  then have "int64_of_float64 amd64 (Finite 0) = 0"
    by (simp add: int64_of_float64_def)
  then have "normalizedEpoch amd64 newYear \<lparr> Ts = Finite 0, Brightness = Finite 1 \<rparr> = 1704067200"
    by (simp add: normalizedEpoch_def newYear_def)
  then show ?thesis
    by (simp add: buildSamplePayload_result [OF platform_ok_amd64] isFinite_def porch_def
        seller_def rfc3339_2024)
qed

section \<open>The empty registry\<close>

text \<open>
  C3, as the code has it. The tick is skipped when the peer map has no entry at all: then
  nothing happens, no request to the sensor and no write. The guard counts entries, not
  eligible entries: when the map has entries, the sensor is asked (if a base URL is
  configured) even if no entry is eligible; and when no entry is eligible at the time of
  the broadcast, no write occurs.
\<close>

theorem empty_registry_skips_tick:
  "(bufMapAtCheck env = [] \<longrightarrow> sellerTick pf g s env tick = [])
   \<and> httpGets (sellerTick pf g s env tick) =
       (if bufMapAtCheck env = [] \<or> PiBase (sellerCfg g) = [] then []
        else [PiBase (sellerCfg g) @ ''/metrics''])
   \<and> ((\<forall>e \<in> set (bufMapAtSend env). \<not> eligible (snd e)) \<longrightarrow>
        peerWrites (sellerTick pf g s env tick) = [])"
proof (intro conjI impI)
  assume "bufMapAtCheck env = []"
  then show "sellerTick pf g s env tick = []"
    by (simp add: sellerTick_def)
next
  show "httpGets (sellerTick pf g s env tick) =
       (if bufMapAtCheck env = [] \<or> PiBase (sellerCfg g) = [] then []
        else [PiBase (sellerCfg g) @ ''/metrics''])"
    by (rule httpGets_sellerTick)
next
  assume "\<forall>e \<in> set (bufMapAtSend env). \<not> eligible (snd e)"
  then have "filter (\<lambda>e. eligible (snd e)) (bufMapAtSend env) = []"
    by (simp add: filter_empty_conv)
  then show "peerWrites (sellerTick pf g s env tick) = []"
    by (simp add: peerWrites_sellerTick split: sum.splits)
qed

text \<open>
  With an empty map the tick does nothing, although a peer would be there at broadcast
  time. With the disconnected peer B as the only entry, the sensor is asked and nothing is
  written.
\<close>

theorem empty_registry_skips_tick_witness:
  "sellerTick amd64 porch seller
     \<lparr> bufMapAtCheck = [], httpGet = answers (reading 0), bufMapAtSend = [peerA],
       peerWrite = (\<lambda>p line. None) \<rparr> newYear = []
   \<and> httpGets (sellerTick amd64 porch seller
     \<lparr> bufMapAtCheck = [peerB], httpGet = answers (reading 0), bufMapAtSend = [peerB],
       peerWrite = (\<lambda>p line. None) \<rparr> newYear) = [''http://pi:8000/metrics'']
   \<and> peerWrites (sellerTick amd64 porch seller
     \<lparr> bufMapAtCheck = [peerB], httpGet = answers (reading 0), bufMapAtSend = [peerB],
       peerWrite = (\<lambda>p line. None) \<rparr> newYear) = []"
proof -
  have b: "\<not> eligible (snd peerB)"
    by (simp add: eligible_def peerB_def)
  have url: "PiBase (sellerCfg porch) = ''http://pi:8000''"
    by (simp add: porch_def)
  show ?thesis
    using
      empty_registry_skips_tick
        [of "\<lparr> bufMapAtCheck = [], httpGet = answers (reading 0), bufMapAtSend = [peerA],
               peerWrite = (\<lambda>p line. None) \<rparr>" amd64 porch seller newYear]
      empty_registry_skips_tick
        [of "\<lparr> bufMapAtCheck = [peerB], httpGet = answers (reading 0), bufMapAtSend = [peerB],
               peerWrite = (\<lambda>p line. None) \<rparr>" amd64 porch seller newYear]
    by (simp add: b url)
qed

text \<open>
  Where C3 fails as stated. The map holds one entry, the disconnected peer B, so it has no
  eligible entry; yet the tick asks the sensor.
\<close>

theorem empty_registry_skips_tick_counterexample:
  "\<not> eligible (snd peerB)
   \<and> sellerTick amd64 porch seller
     \<lparr> bufMapAtCheck = [peerB], httpGet = answers (reading 0), bufMapAtSend = [peerB],
       peerWrite = (\<lambda>p line. None) \<rparr> newYear = [EvHttpGet ''http://pi:8000/metrics'']"
proof -
  have b: "\<not> eligible (snd peerB)"
    by (simp add: eligible_def peerB_def)
  have "broadcastSample porch seller [peerB] wr pl t br = []" for wr pl t br
    using b by (simp add: broadcastSample_def eligible_def)
  then show ?thesis
    using b by (simp add: sellerTick_def fetch_reading build_zero_reading)
qed


section \<open>One tick of the HTTP stream\<close>

lemma stream_keys_sorted:
  "sort_key fst
     [(''ts'', a), (''brightness'', b), (''seller_id'', c), (''lat'', d), (''lon'', e),
      (''label'', f), (''time_iso'', h)]
   = [(''brightness'', b), (''label'', f), (''lat'', d), (''lon'', e), (''seller_id'', c),
      (''time_iso'', h), (''ts'', a)]"
  by simp

lemma render_streamPayload:
  assumes "platform_ok pf"
  shows "render pf (streamPayload pf g pm t) =
     objectText pf (streamEnvelope (sellerCfg g) (mapIndex pm ''ts'') (mapIndex pm ''brightness'')
                      (rfc3339 (sint (unixSec t)) 0))"
proof -
  let ?es = "[(''ts'', mapIndex pm ''ts''), (''brightness'', mapIndex pm ''brightness''),
              (''seller_id'', GString (SellerID (sellerCfg g))),
              (''lat'', GFloat (Lat (sellerCfg g))), (''lon'', GFloat (Lon (sellerCfg g))),
              (''label'', GString (Label (sellerCfg g))),
              (''time_iso'', GString (rfc3339 (sint (unixSec t)) 0))]"
  have keys: "distinct (map fst ?es)"
    by simp
  have "streamPayload pf g pm t = GMap (mapOrder pf ?es)"
    by (simp add: streamPayload_def Format_RFC3339_UTC)
  then show ?thesis
    by (simp only: render_map_any_order [OF assms keys] stream_keys_sorted streamEnvelope_def)
qed

lemma unsupported_streamPayload:
  assumes "platform_ok pf"
  shows "unsupported (streamPayload pf g pm t) =
     (unsupported (mapIndex pm ''ts'') \<or> unsupported (mapIndex pm ''brightness'')
      \<or> \<not> isFinite (Lat (sellerCfg g)) \<or> \<not> isFinite (Lon (sellerCfg g)))"
  unfolding streamPayload_def
  by (simp only: unsupported_map_any_order [OF assms])
     (auto simp: isFinite_def split: float64.splits)

lemma streamTick_unfold:
  "streamTick pf g env t =
     (case snd (fetchJSON (streamGet env) decode_map (PiBase (sellerCfg g) @ ''/metrics'')) of
        Inl err \<Rightarrow>
          ([EvHttpGet (PiBase (sellerCfg g) @ ''/metrics''), EvLog (LogStreamFetchError err)], True)
      | Inr pm \<Rightarrow>
          (case snd (Encode pf (respWrite env) (streamPayload pf g pm t)) of
             Some err \<Rightarrow>
               (EvHttpGet (PiBase (sellerCfg g) @ ''/metrics'')
                  # fst (Encode pf (respWrite env) (streamPayload pf g pm t))
                  @ [EvLog (LogEncodeError err)], False)
           | None \<Rightarrow>
               (EvHttpGet (PiBase (sellerCfg g) @ ''/metrics'')
                  # fst (Encode pf (respWrite env) (streamPayload pf g pm t))
                  @ [EvFlush], True)))"
  by (simp add: streamTick_def fetchJSON_def split: prod.splits sum.splits option.splits)

lemma decode_map_reading:
  "decode_map (reading t) =
     Inr [(''ts'', GFloat (Finite (of_int t))), (''brightness'', GFloat (Finite 1))]"
  by (simp add: decode_map_def reading_def mapOfEntries_def)

lemma stream_fetch_reading:
  "snd (fetchJSON (answers (reading t)) decode_map url) =
     Inr [(''ts'', GFloat (Finite (of_int t))), (''brightness'', GFloat (Finite 1))]"
  by (simp add: fetchJSON_def Decode_def answers_def decode_map_reading)

section \<open>The loops\<close>

lemma select_eq:
  "select w =
     (if ctxDone w \<and> (tickReady w = None \<or> \<not> pickTick w) then Some CaseDone
      else map_option CaseTick (tickReady w))"
  by (cases "tickReady w") (simp_all add: select_def)

lemma sellerLoop_done:
  "select w = Some CaseDone \<Longrightarrow>
   sellerLoop pf g s ((w, env) # rest) = ([EvLog LogContextCancelled], Returned)"
  by simp

lemma sellerLoop_tick:
  "select w = Some (CaseTick tick) \<Longrightarrow>
   sellerLoop pf g s ((w, env) # rest) =
     (sellerTick pf g s env tick @ fst (sellerLoop pf g s rest), snd (sellerLoop pf g s rest))"
  by simp

lemma streamLoop_done:
  "select w = Some CaseDone \<Longrightarrow>
   streamLoop pf g ((w, env) # rest) = ([EvLog LogClientDisconnected], Returned)"
  by simp

lemma streamLoop_tick:
  "select w = Some (CaseTick t) \<Longrightarrow>
   streamLoop pf g ((w, env) # rest) =
     (if snd (streamTick pf g env t)
      then (fst (streamTick pf g env t) @ fst (streamLoop pf g rest), snd (streamLoop pf g rest))
      else (fst (streamTick pf g env t), Returned))"
  by simp

lemma sellerLoop_append:
  "snd (sellerLoop pf g s pre) = Running \<Longrightarrow>
   sellerLoop pf g s (pre @ post) =
     (fst (sellerLoop pf g s pre) @ fst (sellerLoop pf g s post), snd (sellerLoop pf g s post))"
  by (induction pre) (auto split: option.splits branch.splits)

lemma streamLoop_append:
  "snd (streamLoop pf g pre) = Running \<Longrightarrow>
   streamLoop pf g (pre @ post) =
     (fst (streamLoop pf g pre) @ fst (streamLoop pf g post), snd (streamLoop pf g post))"
  by (induction pre) (auto split: option.splits branch.splits if_splits)

lemma sellerLoop_returns_iff:
  "snd (sellerLoop pf g s schedule) = Returned \<longleftrightarrow>
   (\<exists>we \<in> set schedule. select (fst we) = Some CaseDone)"
  by (induction schedule) (auto split: option.splits branch.splits)

lemma sellerLoop_no_panic: "snd (sellerLoop pf g s schedule) \<noteq> Panicked"
  by (induction schedule) (auto split: option.splits branch.splits)

lemma streamLoop_no_panic: "snd (streamLoop pf g schedule) \<noteq> Panicked"
  by (induction schedule) (auto split: option.splits branch.splits)

lemma tickers_streamTick: "tickers (fst (streamTick pf g env t)) = []"
  by (simp add: streamTick_unfold Encode_def tickers_def List.map_filter_simps map_filter_append
      split: sum.splits option.splits)

lemma tickers_streamLoop: "tickers (fst (streamLoop pf g schedule)) = []"
proof (induction schedule)
  case Nil
  show ?case by (simp add: tickers_def List.map_filter_simps)
next
  case (Cons we rest)
  have app: "tickers (xs @ ys) = tickers xs @ tickers ys" for xs ys
    by (simp add: tickers_def map_filter_append)
  have log: "tickers [EvLog l] = []" for l
    by (simp add: tickers_def List.map_filter_simps)
  show ?case
    using Cons
    by (simp add: app log tickers_streamTick split: option.splits branch.splits)
qed


section \<open>The concrete ticks\<close>

lemma select_samples:
  "select (tickOnly t) = Some (CaseTick t)"
  "select doneOnly = Some CaseDone"
  "select (bothTickPicked t) = Some (CaseTick t)"
  "select (bothDonePicked t) = Some CaseDone"
  by (simp_all add: select_def tickOnly_def doneOnly_def bothTickPicked_def bothDonePicked_def)

lemma sellerTick_peerTickA:
  "sellerTick amd64 porch seller peerTickA newYear =
     [EvHttpGet ''http://pi:8000/metrics'',
      EvPeerWrite ''peerA''
        (objectText amd64
           (envelope (sellerCfg porch) ''brightness_sample'' (Finite 1)
              1704067200 ''2024-01-01T00:00:00Z'') @ [CHR 0x0A])
        ''/localsense/brightness/v1'',
      EvLog (LogStreamed (Finite 1) 1704067200 ''peerA'')]"
proof -
  have "broadcastSample porch seller [peerA] (\<lambda>p line. None) pl t br =
      [EvPeerWrite ''peerA'' (pl @ [CHR 0x0A]) ''/localsense/brightness/v1'',
       EvLog (LogStreamed br t ''peerA'')]" for pl t br
    by (simp add: broadcastSample_def peerA_def seller_def porch_def Let_def)
  then show ?thesis
    by (simp add: sellerTick_def peerTickA_def fetch_reading build_zero_reading)
qed

lemma Encode_newYear:
  "Encode amd64 write
     (streamPayload amd64 porch [(''ts'', GFloat (Finite 0)), (''brightness'', GFloat (Finite 1))]
        newYear) =
     ([EvHttpWrite
         (objectText amd64
            (streamEnvelope (sellerCfg porch) (GFloat (Finite 0)) (GFloat (Finite 1))
               ''2024-01-01T00:00:00Z'') @ [CHR 0x0A])],
      write (objectText amd64
            (streamEnvelope (sellerCfg porch) (GFloat (Finite 0)) (GFloat (Finite 1))
               ''2024-01-01T00:00:00Z'') @ [CHR 0x0A]))"
proof -
  have idx: "mapIndex [(''ts'', GFloat (Finite 0)), (''brightness'', GFloat (Finite 1))] ''ts''
        = GFloat (Finite 0)"
      "mapIndex [(''ts'', GFloat (Finite 0)), (''brightness'', GFloat (Finite 1))] ''brightness''
        = GFloat (Finite 1)"
    by (simp_all add: mapIndex_def)
  have fin: "isFinite (Lat (sellerCfg porch))" "isFinite (Lon (sellerCfg porch))"
    by (simp_all add: isFinite_def porch_def)
  have now: "rfc3339 (sint (unixSec newYear)) 0 = ''2024-01-01T00:00:00Z''"
    by (simp add: newYear_def rfc3339_2024)
  show ?thesis
    unfolding Encode_def json_Marshal_def
      unsupported_streamPayload [OF platform_ok_amd64]
      render_streamPayload [OF platform_ok_amd64] idx now
    by (simp add: fin)
qed

lemma streamTick_ok:
  "streamTick amd64 porch streamTickOk newYear =
     ([EvHttpGet ''http://pi:8000/metrics'',
       EvHttpWrite
         (objectText amd64
            (streamEnvelope (sellerCfg porch) (GFloat (Finite 0)) (GFloat (Finite 1))
               ''2024-01-01T00:00:00Z'') @ [CHR 0x0A]),
       EvFlush], True)"
proof -
  have url: "PiBase (sellerCfg porch) @ ''/metrics'' = ''http://pi:8000/metrics''"
    by (simp add: porch_def)
  show ?thesis
    unfolding streamTick_unfold url
    by (simp add: streamTickOk_def stream_fetch_reading Encode_newYear)
qed

lemma streamTick_broken:
  "streamTick amd64 porch streamTickBroken newYear =
     ([EvHttpGet ''http://pi:8000/metrics'',
       EvHttpWrite
         (objectText amd64
            (streamEnvelope (sellerCfg porch) (GFloat (Finite 0)) (GFloat (Finite 1))
               ''2024-01-01T00:00:00Z'') @ [CHR 0x0A]),
       EvLog (LogEncodeError (ErrIO ''broken pipe''))], False)"
proof -
  have url: "PiBase (sellerCfg porch) @ ''/metrics'' = ''http://pi:8000/metrics''"
    by (simp add: porch_def)
  show ?thesis
    unfolding streamTick_unfold url
    by (simp add: streamTickBroken_def stream_fetch_reading Encode_newYear)
qed


section \<open>Cancellation\<close>

text \<open>
  C4, as the code has it. Which case a wake-up runs is decided by \<^const>\<open>select\<close>: the
  cancellation case when the cancellation signal is ready and either no tick is ready or
  the runtime's random choice falls on it; the tick case otherwise, if a tick is ready.
  When the cancellation case runs, either loop logs one line and returns: none of the
  tick's steps is performed, and no later wake-up is looked at, so nothing is written
  after it.
\<close>

theorem cancellation_when_selected:
  "select w =
     (if ctxDone w \<and> (tickReady w = None \<or> \<not> pickTick w) then Some CaseDone
      else map_option CaseTick (tickReady w))
   \<and> (select w = Some CaseDone \<longrightarrow>
        sellerLoop pf g s ((w, env) # rest) = ([EvLog LogContextCancelled], Returned)
      \<and> streamLoop pf g ((w, senv) # srest) = ([EvLog LogClientDisconnected], Returned)
      \<and> (snd (sellerLoop pf g s pre) = Running \<longrightarrow>
           sellerLoop pf g s (pre @ (w, env) # rest) =
             (fst (sellerLoop pf g s pre) @ [EvLog LogContextCancelled], Returned))
      \<and> (snd (streamLoop pf g spre) = Running \<longrightarrow>
           streamLoop pf g (spre @ (w, senv) # srest) =
             (fst (streamLoop pf g spre) @ [EvLog LogClientDisconnected], Returned)))"
proof (intro conjI impI)
  show "select w =
     (if ctxDone w \<and> (tickReady w = None \<or> \<not> pickTick w) then Some CaseDone
      else map_option CaseTick (tickReady w))"
    by (rule select_eq)
next
  assume "select w = Some CaseDone"
  then show "sellerLoop pf g s ((w, env) # rest) = ([EvLog LogContextCancelled], Returned)"
    by (rule sellerLoop_done)
next
  assume "select w = Some CaseDone"
  then show "streamLoop pf g ((w, senv) # srest) = ([EvLog LogClientDisconnected], Returned)"
    by (rule streamLoop_done)
next
  assume "select w = Some CaseDone" and "snd (sellerLoop pf g s pre) = Running"
  then show "sellerLoop pf g s (pre @ (w, env) # rest) =
      (fst (sellerLoop pf g s pre) @ [EvLog LogContextCancelled], Returned)"
    by (simp add: sellerLoop_append)
next
  assume "select w = Some CaseDone" and "snd (streamLoop pf g spre) = Running"
  then show "streamLoop pf g (spre @ (w, senv) # srest) =
      (fst (streamLoop pf g spre) @ [EvLog LogClientDisconnected], Returned)"
    by (simp add: streamLoop_append)
qed

text \<open>
  A wake-up with both signals ready in which the runtime picks the cancellation: the peer
  loop returns at once, and the tick that follows in the schedule is never run. The same
  after one tick has been served: its write is the only one.
\<close>

theorem cancellation_when_selected_witness:
  "sellerLoop amd64 porch seller
     ((bothDonePicked newYear, peerTickA) # [(tickOnly newYear, peerTickA)]) =
     ([EvLog LogContextCancelled], Returned)
   \<and> streamLoop amd64 porch
     ((bothDonePicked newYear, streamTickOk) # [(tickOnly newYear, streamTickOk)]) =
     ([EvLog LogClientDisconnected], Returned)
   \<and> sellerLoop amd64 porch seller
     ([(tickOnly newYear, peerTickA)] @ (bothDonePicked newYear, peerTickA)
        # [(tickOnly newYear, peerTickA)]) =
     (sellerTick amd64 porch seller peerTickA newYear @ [EvLog LogContextCancelled], Returned)"
proof -
  have pre: "sellerLoop amd64 porch seller [(tickOnly newYear, peerTickA)] =
      (sellerTick amd64 porch seller peerTickA newYear, Running)"
    by (simp add: select_samples)
  show ?thesis
    using cancellation_when_selected
      [of "bothDonePicked newYear" amd64 porch seller peerTickA
          "[(tickOnly newYear, peerTickA)]" streamTickOk "[(tickOnly newYear, streamTickOk)]"
          "[(tickOnly newYear, peerTickA)]" "[]"]
    by (simp only: select_samples pre fst_conv snd_conv simp_thms)
qed

text \<open>
  Where C4 fails as stated. Both signals are ready and the runtime picks the tick: the
  peer loop fetches, builds and writes to peer A, and the HTTP stream writes a line.
\<close>

theorem cancellation_when_selected_counterexample:
  "ctxDone (bothTickPicked newYear)
   \<and> tickReady (bothTickPicked newYear) = Some newYear
   \<and> peerWrites (fst (handleSellerStream amd64 porch seller
        [(bothTickPicked newYear, peerTickA)])) =
     [(''peerA'',
       objectText amd64
         (envelope (sellerCfg porch) ''brightness_sample'' (Finite 1)
            1704067200 ''2024-01-01T00:00:00Z'') @ [CHR 0x0A])]
   \<and> httpWrites (fst (streamHandler amd64 porch True
        [(bothTickPicked newYear, streamTickOk)])) =
     [objectText amd64
        (streamEnvelope (sellerCfg porch) (GFloat (Finite 0)) (GFloat (Finite 1))
           ''2024-01-01T00:00:00Z'') @ [CHR 0x0A]]"
proof -
  have interval: "\<not> StreamInterval (cfg seller) \<le>s 0"
    by (simp add: seller_def porch_def Second_def word_sle_eq)
  have peer: "peerWrites (fst (handleSellerStream amd64 porch seller
        [(bothTickPicked newYear, peerTickA)])) =
     [(''peerA'',
       objectText amd64
         (envelope (sellerCfg porch) ''brightness_sample'' (Finite 1)
            1704067200 ''2024-01-01T00:00:00Z'') @ [CHR 0x0A])]"
    by (simp add: handleSellerStream_def interval select_samples sellerTick_peerTickA
        peerWrites_def List.map_filter_simps Let_def)
  have http: "httpWrites (fst (streamHandler amd64 porch True
        [(bothTickPicked newYear, streamTickOk)])) =
     [objectText amd64
        (streamEnvelope (sellerCfg porch) (GFloat (Finite 0)) (GFloat (Finite 1))
           ''2024-01-01T00:00:00Z'') @ [CHR 0x0A]]"
    by (simp add: streamHandler_def select_samples streamTick_ok
        httpWrites_def List.map_filter_simps Let_def)
  from peer http show ?thesis
    by (simp add: bothTickPicked_def)
qed


section \<open>Which failures end a loop\<close>

text \<open>
  C6. In the HTTP stream loop, a tick whose fetch succeeds and whose \<^verbatim>\<open>Encode\<close> fails
  (the payload cannot be marshalled, or the write to the response fails) ends the loop:
  the handler logs the error and returns, and later wake-ups are not served. In the peer
  loop every tick is followed by the rest of the schedule, whatever happened in it: a
  failed build logs one line and ends the tick only, a failed write to a peer is logged
  and notified and the iteration goes on with the remaining entries, and the loop returns
  exactly when a wake-up runs the cancellation case. Neither loop panics.
\<close>

theorem write_failure_policy:
  "(select w = Some (CaseTick t) \<longrightarrow>
      snd (fetchJSON (streamGet senv) decode_map (PiBase (sellerCfg g) @ ''/metrics'')) = Inr pm \<longrightarrow>
      snd (Encode pf (respWrite senv) (streamPayload pf g pm t)) = Some err \<longrightarrow>
        streamLoop pf g ((w, senv) # srest) =
          (EvHttpGet (PiBase (sellerCfg g) @ ''/metrics'')
             # fst (Encode pf (respWrite senv) (streamPayload pf g pm t))
             @ [EvLog (LogEncodeError err)], Returned)
        \<and> snd (streamHandler pf g True ((w, senv) # srest)) = Returned)
   \<and> (select w = Some (CaseTick t) \<longrightarrow>
        sellerLoop pf g s ((w, env) # rest) =
          (sellerTick pf g s env t @ fst (sellerLoop pf g s rest), snd (sellerLoop pf g s rest)))
   \<and> (bufMapAtCheck env \<noteq> [] \<longrightarrow>
        snd (fetchPiMetrics g (httpGet env)) = Inr m \<longrightarrow>
        buildSamplePayload pf g s t (Some m) = Inl berr \<longrightarrow>
          sellerTick pf g s env t =
            fst (fetchPiMetrics g (httpGet env)) @ [EvLog (LogBuildFailed berr)])
   \<and> (snd (sellerLoop pf g s schedule) = Returned \<longleftrightarrow>
        (\<exists>we \<in> set schedule. select (fst we) = Some CaseDone))
   \<and> snd (sellerLoop pf g s schedule) \<noteq> Panicked
   \<and> snd (streamLoop pf g sschedule) \<noteq> Panicked
   \<and> (eligible (snd entry) \<longrightarrow> write (fst entry) line = Some werr \<longrightarrow>
        broadcastRange g s write line ts b (entry # others) =
          [EvPeerWrite (fst entry) line (Protocol (cfg s)),
           EvLog (LogWriteFailed (fst entry) werr),
           EvPeerSendError (OtherStdInTopic (snd entry)) (SellerID (sellerCfg g)) werr]
          @ broadcastRange g s write line ts b others)"
proof (intro conjI impI)
  assume sel: "select w = Some (CaseTick t)"
    and fetched: "snd (fetchJSON (streamGet senv) decode_map (PiBase (sellerCfg g) @ ''/metrics''))
        = Inr pm"
    and failed: "snd (Encode pf (respWrite senv) (streamPayload pf g pm t)) = Some err"
  have tick: "streamTick pf g senv t =
      (EvHttpGet (PiBase (sellerCfg g) @ ''/metrics'')
         # fst (Encode pf (respWrite senv) (streamPayload pf g pm t))
         @ [EvLog (LogEncodeError err)], False)"
    by (simp add: streamTick_unfold fetched failed)
  show loop: "streamLoop pf g ((w, senv) # srest) =
      (EvHttpGet (PiBase (sellerCfg g) @ ''/metrics'')
         # fst (Encode pf (respWrite senv) (streamPayload pf g pm t))
         @ [EvLog (LogEncodeError err)], Returned)"
    unfolding streamLoop_tick [OF sel] tick by simp
  show "snd (streamHandler pf g True ((w, senv) # srest)) = Returned"
    unfolding streamHandler_def Let_def loop by simp
next
  assume "select w = Some (CaseTick t)"
  then show "sellerLoop pf g s ((w, env) # rest) =
      (sellerTick pf g s env t @ fst (sellerLoop pf g s rest), snd (sellerLoop pf g s rest))"
    by (rule sellerLoop_tick)
next
  assume "bufMapAtCheck env \<noteq> []" and "snd (fetchPiMetrics g (httpGet env)) = Inr m"
    and "buildSamplePayload pf g s t (Some m) = Inl berr"
  then show "sellerTick pf g s env t =
      fst (fetchPiMetrics g (httpGet env)) @ [EvLog (LogBuildFailed berr)]"
    by (simp add: sellerTick_unfold)
next
  show "snd (sellerLoop pf g s schedule) = Returned \<longleftrightarrow>
      (\<exists>we \<in> set schedule. select (fst we) = Some CaseDone)"
    by (rule sellerLoop_returns_iff)
next
  show "snd (sellerLoop pf g s schedule) \<noteq> Panicked"
    by (rule sellerLoop_no_panic)
next
  show "snd (streamLoop pf g sschedule) \<noteq> Panicked"
    by (rule streamLoop_no_panic)
next
  assume "eligible (snd entry)" and "write (fst entry) line = Some werr"
  then show "broadcastRange g s write line ts b (entry # others) =
      [EvPeerWrite (fst entry) line (Protocol (cfg s)),
       EvLog (LogWriteFailed (fst entry) werr),
       EvPeerSendError (OtherStdInTopic (snd entry)) (SellerID (sellerCfg g)) werr]
      @ broadcastRange g s write line ts b others"
    by (simp add: eligible_def Let_def)
qed

text \<open>
  A stream whose response writer is broken returns on its first tick and never serves the
  second. A seller whose configured latitude is NaN cannot marshal its payload: both of
  its ticks are served, each logs the failed build, and the loop is still running.
\<close>

theorem write_failure_policy_witness:
  "streamLoop amd64 porch
     ((tickOnly newYear, streamTickBroken) # [(tickOnly newYear, streamTickOk)]) =
     ([EvHttpGet ''http://pi:8000/metrics'',
       EvHttpWrite
         (objectText amd64
            (streamEnvelope (sellerCfg porch) (GFloat (Finite 0)) (GFloat (Finite 1))
               ''2024-01-01T00:00:00Z'') @ [CHR 0x0A]),
       EvLog (LogEncodeError (ErrIO ''broken pipe''))], Returned)
   \<and> sellerLoop amd64 (porch\<lparr> sellerCfg := (sellerCfg porch)\<lparr> Lat := NaN \<rparr> \<rparr>) seller
     ((tickOnly newYear, peerTickA) # [(tickOnly newYear, peerTickA)]) =
     ([EvHttpGet ''http://pi:8000/metrics'',
       EvLog (LogBuildFailed (ErrMarshalPayload ErrUnsupportedValue)),
       EvHttpGet ''http://pi:8000/metrics'',
       EvLog (LogBuildFailed (ErrMarshalPayload ErrUnsupportedValue))], Running)"
proof -
  let ?nan = "porch\<lparr> sellerCfg := (sellerCfg porch)\<lparr> Lat := NaN \<rparr> \<rparr>"
  have url: "PiBase (sellerCfg porch) @ ''/metrics'' = ''http://pi:8000/metrics''"
    by (simp add: porch_def)
  have fetched: "snd (fetchJSON (streamGet streamTickBroken) decode_map
        (PiBase (sellerCfg porch) @ ''/metrics'')) =
      Inr [(''ts'', GFloat (Finite 0)), (''brightness'', GFloat (Finite 1))]"
    by (simp add: streamTickBroken_def stream_fetch_reading)
  have enc: "Encode amd64 (respWrite streamTickBroken)
        (streamPayload amd64 porch
           [(''ts'', GFloat (Finite 0)), (''brightness'', GFloat (Finite 1))] newYear) =
      ([EvHttpWrite
          (objectText amd64
             (streamEnvelope (sellerCfg porch) (GFloat (Finite 0)) (GFloat (Finite 1))
                ''2024-01-01T00:00:00Z'') @ [CHR 0x0A])],
       Some (ErrIO ''broken pipe''))"
    by (simp add: Encode_newYear streamTickBroken_def)
  have failed: "snd (Encode amd64 (respWrite streamTickBroken)
        (streamPayload amd64 porch
           [(''ts'', GFloat (Finite 0)), (''brightness'', GFloat (Finite 1))] newYear)) =
      Some (ErrIO ''broken pipe'')"
    by (simp add: enc)
  have stream: "streamLoop amd64 porch
     ((tickOnly newYear, streamTickBroken) # [(tickOnly newYear, streamTickOk)]) =
     ([EvHttpGet ''http://pi:8000/metrics'',
       EvHttpWrite
         (objectText amd64
            (streamEnvelope (sellerCfg porch) (GFloat (Finite 0)) (GFloat (Finite 1))
               ''2024-01-01T00:00:00Z'') @ [CHR 0x0A]),
       EvLog (LogEncodeError (ErrIO ''broken pipe''))], Returned)"
    using write_failure_policy
      [where w = "tickOnly newYear" and t = newYear and senv = streamTickBroken and g = porch
         and pf = amd64 and srest = "[(tickOnly newYear, streamTickOk)]",
       THEN conjunct1, rule_format, OF select_samples(1) fetched failed, THEN conjunct1]
    unfolding enc url by simp
  have got: "fetchPiMetrics ?nan (httpGet peerTickA) =
      ([EvHttpGet ''http://pi:8000/metrics''], Inr \<lparr> Ts = Finite 0, Brightness = Finite 1 \<rparr>)"
    by (simp add: fetchPiMetrics_def fetchJSON_def Decode_def answers_def decode_reading
        porch_def peerTickA_def)
  have build: "buildSamplePayload amd64 ?nan seller newYear
      (Some \<lparr> Ts = Finite 0, Brightness = Finite 1 \<rparr>) = Inl (ErrMarshalPayload ErrUnsupportedValue)"
    by (simp add: buildSamplePayload_result [OF platform_ok_amd64] isFinite_def)
  have entries: "bufMapAtCheck peerTickA \<noteq> []"
    by (simp add: peerTickA_def)
  have got2: "snd (fetchPiMetrics ?nan (httpGet peerTickA)) =
      Inr \<lparr> Ts = Finite 0, Brightness = Finite 1 \<rparr>"
    by (simp add: got)
  have tick: "sellerTick amd64 ?nan seller peerTickA newYear =
      [EvHttpGet ''http://pi:8000/metrics'',
       EvLog (LogBuildFailed (ErrMarshalPayload ErrUnsupportedValue))]"
    using write_failure_policy
      [where g = ?nan and pf = amd64 and s = seller and env = peerTickA and t = newYear,
       THEN conjunct2, THEN conjunct2, THEN conjunct1, rule_format, OF entries got2 build]
    unfolding got by simp
  have peer: "sellerLoop amd64 ?nan seller
     ((tickOnly newYear, peerTickA) # [(tickOnly newYear, peerTickA)]) =
     ([EvHttpGet ''http://pi:8000/metrics'',
       EvLog (LogBuildFailed (ErrMarshalPayload ErrUnsupportedValue)),
       EvHttpGet ''http://pi:8000/metrics'',
       EvLog (LogBuildFailed (ErrMarshalPayload ErrUnsupportedValue))], Running)"
    by (simp add: select_samples tick)
  from stream peer show ?thesis ..
qed


section \<open>The interval of the HTTP stream\<close>

text \<open>
  C10. Whatever the global configuration holds (the configured stream interval
  included), a run of \<^verbatim>\<open>streamHandler\<close> on a writer that can flush creates exactly one
  ticker, and its interval is five seconds (5000000000 nanoseconds); on a writer that
  cannot flush it creates none.
\<close>

theorem stream_ticker_fixed:
  "tickers (fst (streamHandler pf g flusher schedule)) = (if flusher then [5 * Second] else [])
   \<and> sint (5 * Second) = 5000000000"
proof -
  have app: "tickers (xs @ ys) = tickers xs @ tickers ys" for xs ys
    by (simp add: tickers_def map_filter_append)
  have start: "tickers [EvSetHeader a b, EvLog l, EvNewTicker d] = [d]" for a b l d
    by (simp add: tickers_def List.map_filter_simps)
  have stop: "tickers (if c then [EvTickerStop] else []) = []" for c
    by (simp add: tickers_def List.map_filter_simps)
  have refused: "tickers [EvSetHeader a b, EvHttpError e n] = []" for a b e n
    by (simp add: tickers_def List.map_filter_simps)
  have "tickers (fst (streamHandler pf g flusher schedule)) = (if flusher then [5 * Second] else [])"
  proof (cases flusher)
    case True
    then show ?thesis
      by (simp only: streamHandler_def Let_def app start stop tickers_streamLoop
          fst_conv simp_thms if_True if_False append_Nil2)
  next
    case False
    then show ?thesis
      by (simp only: streamHandler_def refused fst_conv simp_thms if_True if_False)
  qed
  moreover have "sint (5 * Second) = 5000000000"
    by (simp add: Second_def)
  ultimately show ?thesis ..
qed

text \<open>
  The seller is configured with a stream interval of sixty seconds; its HTTP stream ticks
  every five.
\<close>

theorem stream_ticker_fixed_witness:
  "StreamInterval (neuronCfg porch) = 60000000000
   \<and> tickers (fst (streamHandler amd64 porch True [(tickOnly newYear, streamTickOk)])) =
       [5000000000]"
proof -
  have "StreamInterval (neuronCfg porch) = 60000000000"
    by (simp add: porch_def Second_def)
  then show ?thesis
    using stream_ticker_fixed [of amd64 porch True "[(tickOnly newYear, streamTickOk)]"]
    by (simp add: Second_def)
qed


section \<open>What the sensor reader accepts\<close>

lemma storeFloat_ok:
  "snd (storeFloat v old) = None \<longleftrightarrow> v = JNull \<or> (\<exists>r. v = JNumber (InRange r))"
  by (cases v) (auto simp: storeFloat_def split: number.splits)

lemma decodeObject_no_error:
  "snd (decodeObject kvs st) = None \<longleftrightarrow>
     snd st = None \<and>
     (\<forall>kv \<in> set kvs. fieldFor (fst kv) \<noteq> None \<longrightarrow>
        snd kv = JNull \<or> (\<exists>r. snd kv = JNumber (InRange r)))"
proof (induction kvs arbitrary: st)
  case Nil
  show ?case by simp
next
  case (Cons kv kvs)
  show ?case
  proof (cases "fieldFor (fst kv)")
    case None
    then show ?thesis by (simp add: Cons.IH)
  next
    case (Some fld)
    have step: "firstError (snd st) e = None \<longleftrightarrow> snd st = None \<and> e = None" for e
      by (cases "snd st") (simp_all add: firstError_def)
    show ?thesis
    proof (cases fld)
      case FieldTs
      with Some show ?thesis
        using storeFloat_ok [of "snd kv" "Ts (fst st)"]
        by (auto simp: Cons.IH step split: prod.splits)
    next
      case FieldBrightness
      with Some show ?thesis
        using storeFloat_ok [of "snd kv" "Brightness (fst st)"]
        by (auto simp: Cons.IH step split: prod.splits)
    qed
  qed
qed

lemma decodeObject_no_field:
  "\<forall>kv \<in> set kvs. fieldFor (fst kv) = None \<Longrightarrow> decodeObject kvs st = st"
  by (induction kvs arbitrary: st) simp_all

lemma decodeObject_Ts_untouched:
  "\<forall>kv \<in> set kvs. fieldFor (fst kv) \<noteq> Some FieldTs \<Longrightarrow>
   Ts (fst (decodeObject kvs st)) = Ts (fst st)"
proof (induction kvs arbitrary: st)
  case Nil
  show ?case by simp
next
  case (Cons kv kvs)
  then have rest: "\<forall>kv \<in> set kvs. fieldFor (fst kv) \<noteq> Some FieldTs"
    and this_one: "fieldFor (fst kv) \<noteq> Some FieldTs"
    by simp_all
  show ?case
  proof (cases "fieldFor (fst kv)")
    case None
    then show ?thesis by (simp add: Cons.IH [OF rest])
  next
    case (Some fld)
    with this_one have "fld = FieldBrightness"
      by (cases fld) simp_all
    with Some show ?thesis
      by (simp add: Cons.IH [OF rest] split: prod.splits)
  qed
qed

lemma decode_piMetrics_succeeds_iff:
  "(\<exists>m. decode_piMetrics j = Inr m) \<longleftrightarrow>
     j = JNull \<or>
     (\<exists>kvs. j = JObject kvs \<and>
        (\<forall>kv \<in> set kvs. fieldFor (fst kv) \<noteq> None \<longrightarrow>
           snd kv = JNull \<or> (\<exists>r. snd kv = JNumber (InRange r))))"
proof (cases j)
  case (JObject kvs)
  let ?st = "decodeObject kvs (\<lparr> Ts = Finite 0, Brightness = Finite 0 \<rparr>, None)"
  have "(\<exists>m. decode_piMetrics j = Inr m) \<longleftrightarrow> snd ?st = None"
    unfolding JObject decode_piMetrics_def
    by (cases ?st; cases "snd ?st") auto
  then show ?thesis
    using JObject by (simp add: decodeObject_no_error)
qed (simp_all add: decode_piMetrics_def)

lemma decode_piMetrics_missing_ts:
  assumes "\<forall>kv \<in> set kvs. fieldFor (fst kv) \<noteq> Some FieldTs"
    and "decode_piMetrics (JObject kvs) = Inr m"
  shows "Ts m = Finite 0"
proof -
  let ?st = "decodeObject kvs (\<lparr> Ts = Finite 0, Brightness = Finite 0 \<rparr>, None)"
  from assms(2) have "m = fst ?st"
    by (cases ?st; cases "snd ?st") (auto simp: decode_piMetrics_def)
  then show ?thesis
    using decodeObject_Ts_untouched [OF assms(1)] by simp
qed

lemma fetchPiMetrics_succeeds:
  "snd (fetchPiMetrics g get) = Inr m \<longleftrightarrow>
     PiBase (sellerCfg g) \<noteq> [] \<and>
     (\<exists>resp j. get (PiBase (sellerCfg g) @ ''/metrics'') = Inr resp \<and> StatusCode resp = 200
        \<and> Body resp = Document j \<and> decode_piMetrics j = Inr m)"
  by (auto simp: fetchPiMetrics_def fetchJSON_def Decode_def
      split: sum.splits body.splits if_splits)

text \<open>
  C7, as the code has it. The fetch succeeds exactly when a base URL is configured, the
  GET returns a response, its status is 200, its body holds a JSON value, and that value
  is \<^verbatim>\<open>null\<close> or an object in which every member whose key matches \<open>ts\<close> or
  \<open>brightness\<close> (exactly, or folded) holds \<^verbatim>\<open>null\<close> or a number within the range of
  \<^verbatim>\<open>float64\<close>; it then returns the decoded reading. The shape is not checked beyond
  that: members may be missing (the field stays zero) and other members may be present. In
  particular an object with no matching member decodes to the zero reading, and an object
  with no member matching \<open>ts\<close> decodes to a reading stamped zero.
\<close>

theorem sensor_fetch_outcome:
  "(snd (fetchPiMetrics g get) = Inr m \<longleftrightarrow>
      PiBase (sellerCfg g) \<noteq> [] \<and>
      (\<exists>resp j. get (PiBase (sellerCfg g) @ ''/metrics'') = Inr resp \<and> StatusCode resp = 200
         \<and> Body resp = Document j \<and> decode_piMetrics j = Inr m))
   \<and> ((\<exists>m'. decode_piMetrics j = Inr m') \<longleftrightarrow>
        j = JNull \<or>
        (\<exists>kvs. j = JObject kvs \<and>
           (\<forall>kv \<in> set kvs. fieldFor (fst kv) \<noteq> None \<longrightarrow>
              snd kv = JNull \<or> (\<exists>r. snd kv = JNumber (InRange r)))))
   \<and> ((\<forall>kv \<in> set kvs. fieldFor (fst kv) = None) \<longrightarrow>
        decode_piMetrics (JObject kvs) = Inr \<lparr> Ts = Finite 0, Brightness = Finite 0 \<rparr>)
   \<and> ((\<forall>kv \<in> set kvs. fieldFor (fst kv) \<noteq> Some FieldTs) \<longrightarrow>
        decode_piMetrics (JObject kvs) = Inr m'' \<longrightarrow> Ts m'' = Finite 0)
   \<and> decode_piMetrics (JObject [(''ts'', JNumber (InRange a)), (''brightness'', JNumber (InRange b))])
       = Inr \<lparr> Ts = Finite a, Brightness = Finite b \<rparr>"
proof (intro conjI impI)
  show "snd (fetchPiMetrics g get) = Inr m \<longleftrightarrow>
      PiBase (sellerCfg g) \<noteq> [] \<and>
      (\<exists>resp j. get (PiBase (sellerCfg g) @ ''/metrics'') = Inr resp \<and> StatusCode resp = 200
         \<and> Body resp = Document j \<and> decode_piMetrics j = Inr m)"
    by (rule fetchPiMetrics_succeeds)
next
  show "(\<exists>m'. decode_piMetrics j = Inr m') \<longleftrightarrow>
        j = JNull \<or>
        (\<exists>kvs. j = JObject kvs \<and>
           (\<forall>kv \<in> set kvs. fieldFor (fst kv) \<noteq> None \<longrightarrow>
              snd kv = JNull \<or> (\<exists>r. snd kv = JNumber (InRange r))))"
    by (rule decode_piMetrics_succeeds_iff)
next
  assume "\<forall>kv \<in> set kvs. fieldFor (fst kv) = None"
  then show "decode_piMetrics (JObject kvs) = Inr \<lparr> Ts = Finite 0, Brightness = Finite 0 \<rparr>"
    by (simp add: decode_piMetrics_def decodeObject_no_field)
next
  assume "\<forall>kv \<in> set kvs. fieldFor (fst kv) \<noteq> Some FieldTs"
    and "decode_piMetrics (JObject kvs) = Inr m''"
  then show "Ts m'' = Finite 0"
    by (rule decode_piMetrics_missing_ts)
next
  show "decode_piMetrics (JObject [(''ts'', JNumber (InRange a)), (''brightness'', JNumber (InRange b))])
       = Inr \<lparr> Ts = Finite a, Brightness = Finite b \<rparr>"
    by (simp add: decode_piMetrics_def fieldFor_def storeFloat_def firstError_def)
qed

text \<open>
  A well-formed reading is returned as decoded; an object whose only member is
  \<open>humidity\<close> is accepted too, as the zero reading; an object whose \<open>TS\<close> member is a
  string is refused.
\<close>

theorem sensor_fetch_outcome_witness:
  "snd (fetchPiMetrics porch (answers (reading 1700000000))) =
     Inr \<lparr> Ts = Finite 1700000000, Brightness = Finite 1 \<rparr>
   \<and> decode_piMetrics (JObject [(''humidity'', JNumber (InRange 40))]) =
     Inr \<lparr> Ts = Finite 0, Brightness = Finite 0 \<rparr>
   \<and> \<not> (\<exists>m. decode_piMetrics (JObject [(''TS'', JString ''noon'')]) = Inr m)"
proof -
  have url: "PiBase (sellerCfg porch) @ ''/metrics'' = ''http://pi:8000/metrics''"
    "PiBase (sellerCfg porch) \<noteq> []"
    by (simp_all add: porch_def)
  have "\<exists>resp j. answers (reading 1700000000) ''http://pi:8000/metrics'' = Inr resp
      \<and> StatusCode resp = 200 \<and> Body resp = Document j
      \<and> decode_piMetrics j = Inr \<lparr> Ts = Finite 1700000000, Brightness = Finite 1 \<rparr>"
    using sensor_fetch_outcome
      [where a = 1700000000 and b = 1, THEN conjunct2, THEN conjunct2, THEN conjunct2,
       THEN conjunct2]
    by (simp add: answers_def reading_def)
  then have one: "snd (fetchPiMetrics porch (answers (reading 1700000000))) =
     Inr \<lparr> Ts = Finite 1700000000, Brightness = Finite 1 \<rparr>"
    using sensor_fetch_outcome
      [where g = porch and get = "answers (reading 1700000000)"
         and m = "\<lparr> Ts = Finite 1700000000, Brightness = Finite 1 \<rparr>", THEN conjunct1]
    by (simp add: url)
  have "fieldFor ''humidity'' = None"
    by (simp add: fieldFor_def upperASCII_def)
  then have two: "decode_piMetrics (JObject [(''humidity'', JNumber (InRange 40))]) =
     Inr \<lparr> Ts = Finite 0, Brightness = Finite 0 \<rparr>"
    using sensor_fetch_outcome
      [where kvs = "[(''humidity'', JNumber (InRange 40))]",
       THEN conjunct2, THEN conjunct2, THEN conjunct1]
    by simp
  have "fieldFor ''TS'' = Some FieldTs"
    by (simp add: fieldFor_def upperASCII_def)
  then have three: "\<not> (\<exists>m. decode_piMetrics (JObject [(''TS'', JString ''noon'')]) = Inr m)"
    using sensor_fetch_outcome
      [where j = "JObject [(''TS'', JString ''noon'')]", THEN conjunct2, THEN conjunct1]
    by simp
  from one two three show ?thesis
    by (intro conjI)
qed

text \<open>
  Where C7 fails as stated. The bodies \<^verbatim>\<open>{}\<close> and \<^verbatim>\<open>{"brightness": 1}\<close> do not have the
  expected shape, yet the fetch succeeds, with zero for what is missing.
\<close>

theorem sensor_fetch_outcome_counterexample:
  "fetchPiMetrics porch (answers (JObject [])) =
     ([EvHttpGet ''http://pi:8000/metrics''], Inr \<lparr> Ts = Finite 0, Brightness = Finite 0 \<rparr>)
   \<and> fetchPiMetrics porch (answers (JObject [(''brightness'', JNumber (InRange 1))])) =
     ([EvHttpGet ''http://pi:8000/metrics''], Inr \<lparr> Ts = Finite 0, Brightness = Finite 1 \<rparr>)"
  by (simp add: fetchPiMetrics_def fetchJSON_def Decode_def answers_def porch_def
      decode_piMetrics_def fieldFor_def storeFloat_def firstError_def)


section \<open>The timestamp of an emitted envelope\<close>

lemma peerWrite_in_peerWrites:
  "EvPeerWrite p line proto \<in> set evs \<Longrightarrow> (p, line) \<in> set (peerWrites evs)"
  by (induction evs) (auto simp: peerWrites_def split: event.splits)

lemma httpWrite_in_streamTick:
  assumes "EvHttpWrite line \<in> set (fst (streamTick pf g senv t))"
  shows "\<exists>pm. snd (fetchJSON (streamGet senv) decode_map (PiBase (sellerCfg g) @ ''/metrics''))
           = Inr pm
         \<and> \<not> unsupported (streamPayload pf g pm t)
         \<and> line = render pf (streamPayload pf g pm t) @ [CHR 0x0A]"
  using assms
  by (auto simp: streamTick_unfold Encode_def json_Marshal_def
      split: sum.splits option.splits if_splits)

lemma normalizedEpoch_positive:
  "0 <s unixSec now \<Longrightarrow> 0 <s normalizedEpoch pf now m"
  by (simp add: normalizedEpoch_def)

lemma trunc_nonpositive: "r \<le> 0 \<Longrightarrow> trunc r \<le> 0"
proof -
  assume "r \<le> 0"
  then have "\<lfloor>r\<rfloor> \<le> 0" and "\<lceil>r\<rceil> \<le> 0"
    by (simp_all add: ceiling_le_zero floor_le_zero le_less_trans)
  then show ?thesis
    by (simp add: trunc_def)
qed

text \<open>
  C5, as the code has it. Every line the peer loop writes is the envelope of the reading
  just fetched, with the normalized epoch and its RFC 3339 text: the reading's own
  timestamp when its conversion to \<^verbatim>\<open>int64\<close> is positive, the tick's wall-clock time
  otherwise. So the epoch is positive whenever the wall clock is past 1970, and a
  timestamp that is zero or negative (and not below the range of \<^verbatim>\<open>int64\<close>) is replaced
  by the wall-clock time, and so is the timestamp of a reading decoded from an answer
  that has no \<open>ts\<close> member. The HTTP stream does not normalize: every line it writes
  carries, as \<open>ts\<close>, whatever the sensor's answer holds under the key \<open>ts\<close> (\<^verbatim>\<open>null\<close> when
  it holds nothing), and as \<open>time_iso\<close> the RFC 3339 text of the tick's wall-clock time.
\<close>

theorem envelope_timestamps:
  assumes "platform_ok pf"
  shows "(\<forall>p line proto. EvPeerWrite p line proto \<in> set (sellerTick pf g s env tick) \<longrightarrow>
            (\<exists>m. snd (fetchPiMetrics g (httpGet env)) = Inr m
               \<and> line = objectText pf
                    (envelope (sellerCfg g) (SampleKind (cfg s)) (Brightness m)
                       (normalizedEpoch pf tick m)
                       (rfc3339 (sint (normalizedEpoch pf tick m)) 0)) @ [CHR 0x0A]))
       \<and> (\<forall>m. 0 <s unixSec tick \<longrightarrow> 0 <s normalizedEpoch pf tick m)
       \<and> (\<forall>m r. Ts m = Finite r \<longrightarrow> - (2 ^ 63) \<le> trunc r \<longrightarrow> r \<le> 0 \<longrightarrow>
            normalizedEpoch pf tick m = unixSec tick)
       \<and> (\<forall>kvs m. (\<forall>kv \<in> set kvs. fieldFor (fst kv) \<noteq> Some FieldTs) \<longrightarrow>
            decode_piMetrics (JObject kvs) = Inr m \<longrightarrow>
            normalizedEpoch pf tick m = unixSec tick)
       \<and> (\<forall>line. EvHttpWrite line \<in> set (fst (streamTick pf g senv t)) \<longrightarrow>
            (\<exists>pm. snd (fetchJSON (streamGet senv) decode_map (PiBase (sellerCfg g) @ ''/metrics''))
                    = Inr pm
               \<and> line = objectText pf
                    (streamEnvelope (sellerCfg g) (mapIndex pm ''ts'') (mapIndex pm ''brightness'')
                       (rfc3339 (sint (unixSec t)) 0)) @ [CHR 0x0A]))"
proof (intro conjI allI impI)
  fix p line proto
  assume "EvPeerWrite p line proto \<in> set (sellerTick pf g s env tick)"
  then have written: "(p, line) \<in> set (peerWrites (sellerTick pf g s env tick))"
    by (rule peerWrite_in_peerWrites)
  then obtain m where m: "snd (fetchPiMetrics g (httpGet env)) = Inr m"
    by (cases "snd (fetchPiMetrics g (httpGet env))")
       (auto simp: peerWrites_sellerTick split: if_splits)
  from written m obtain r where r: "buildSamplePayload pf g s tick (Some m) = Inr r"
    and line: "line = fst r @ [CHR 0x0A]"
    by (cases "buildSamplePayload pf g s tick (Some m)")
       (auto simp: peerWrites_sellerTick split: if_splits)
  from r have "fst r = objectText pf
      (envelope (sellerCfg g) (SampleKind (cfg s)) (Brightness m) (normalizedEpoch pf tick m)
         (rfc3339 (sint (normalizedEpoch pf tick m)) 0))"
    by (auto simp: buildSamplePayload_result [OF assms] split: if_splits)
  with m line
  show "\<exists>m. snd (fetchPiMetrics g (httpGet env)) = Inr m
      \<and> line = objectText pf
           (envelope (sellerCfg g) (SampleKind (cfg s)) (Brightness m)
              (normalizedEpoch pf tick m)
              (rfc3339 (sint (normalizedEpoch pf tick m)) 0)) @ [CHR 0x0A]"
    by auto
next
  fix m
  assume "0 <s unixSec tick"
  then show "0 <s normalizedEpoch pf tick m"
    by (rule normalizedEpoch_positive)
next
  fix m :: piMetrics and r :: rat
  assume ts: "Ts m = Finite r" and low: "- (2 ^ 63) \<le> trunc r" and "r \<le> 0"
  then have le: "trunc r \<le> 0"
    by (simp add: trunc_nonpositive)
  then have high: "trunc r < 2 ^ 63"
    by simp
  have "sint (int64_of_float64 pf (Finite r)) = trunc r"
    using low high by (rule int64_of_float64_in_range(2))
  with le ts show "normalizedEpoch pf tick m = unixSec tick"
    by (simp add: normalizedEpoch_def word_sless_alt)
next
  fix kvs and m :: piMetrics
  assume "\<forall>kv \<in> set kvs. fieldFor (fst kv) \<noteq> Some FieldTs"
    and "decode_piMetrics (JObject kvs) = Inr m"
  then have ts: "Ts m = Finite 0"
    by (rule decode_piMetrics_missing_ts)
  have "trunc 0 = 0"
    by (simp add: trunc_def)
  then have "sint (int64_of_float64 pf (Finite 0)) = 0"
    using int64_of_float64_in_range(2) [of 0 pf] by simp
  with ts show "normalizedEpoch pf tick m = unixSec tick"
    by (simp add: normalizedEpoch_def word_sless_alt)
next
  fix line
  assume "EvHttpWrite line \<in> set (fst (streamTick pf g senv t))"
  then obtain pm
    where "snd (fetchJSON (streamGet senv) decode_map (PiBase (sellerCfg g) @ ''/metrics''))
        = Inr pm"
      and "line = render pf (streamPayload pf g pm t) @ [CHR 0x0A]"
    using httpWrite_in_streamTick by blast
  then show "\<exists>pm. snd (fetchJSON (streamGet senv) decode_map (PiBase (sellerCfg g) @ ''/metrics''))
              = Inr pm
      \<and> line = objectText pf
           (streamEnvelope (sellerCfg g) (mapIndex pm ''ts'') (mapIndex pm ''brightness'')
              (rfc3339 (sint (unixSec t)) 0)) @ [CHR 0x0A]"
    by (auto simp: render_streamPayload [OF assms])
qed

text \<open>
  A sensor that stamps its reading 0, asked at 2024-01-01T00:00:00Z; peer A is connected
  and validated. The peer loop replaces the stamp: the epoch of its envelope is
  1704067200, and the line written to A is that envelope. A sensor whose answer has a
  brightness only gets the same epoch.
\<close>

theorem envelope_timestamps_witness:
  "normalizedEpoch amd64 newYear \<lparr> Ts = Finite 0, Brightness = Finite 1 \<rparr> = 1704067200
   \<and> 0 <s normalizedEpoch amd64 newYear \<lparr> Ts = Finite 0, Brightness = Finite 1 \<rparr>
   \<and> (\<exists>m. snd (fetchPiMetrics porch (httpGet peerTickA)) = Inr m
         \<and> objectText amd64
              (envelope (sellerCfg porch) ''brightness_sample'' (Finite 1)
                 1704067200 ''2024-01-01T00:00:00Z'') @ [CHR 0x0A]
           = objectText amd64
               (envelope (sellerCfg porch) (SampleKind (cfg seller)) (Brightness m)
                  (normalizedEpoch amd64 newYear m)
                  (rfc3339 (sint (normalizedEpoch amd64 newYear m)) 0)) @ [CHR 0x0A])
   \<and> normalizedEpoch amd64 newYear \<lparr> Ts = Finite 0, Brightness = Finite 7 \<rparr> = 1704067200"
proof -
  note inst = envelope_timestamps [OF platform_ok_amd64, of porch seller peerTickA newYear]
  have now: "unixSec newYear = 1704067200"
    by (simp add: newYear_def)
  have "trunc 0 = 0"
    by (simp add: trunc_def)
  then have "normalizedEpoch amd64 newYear \<lparr> Ts = Finite 0, Brightness = Finite 1 \<rparr> = unixSec newYear"
    using inst [THEN conjunct2, THEN conjunct2, THEN conjunct1, rule_format,
        of "\<lparr> Ts = Finite 0, Brightness = Finite 1 \<rparr>" 0]
    by simp
  then have one: "normalizedEpoch amd64 newYear \<lparr> Ts = Finite 0, Brightness = Finite 1 \<rparr> = 1704067200"
    by (simp add: now)
  have two: "0 <s normalizedEpoch amd64 newYear \<lparr> Ts = Finite 0, Brightness = Finite 1 \<rparr>"
    using inst [THEN conjunct2, THEN conjunct1, rule_format,
        of "\<lparr> Ts = Finite 0, Brightness = Finite 1 \<rparr>"]
    by (simp add: now word_sless_alt)
  have "EvPeerWrite ''peerA''
      (objectText amd64
         (envelope (sellerCfg porch) ''brightness_sample'' (Finite 1)
            1704067200 ''2024-01-01T00:00:00Z'') @ [CHR 0x0A])
      ''/localsense/brightness/v1'' \<in> set (sellerTick amd64 porch seller peerTickA newYear)"
    by (simp add: sellerTick_peerTickA)
  from inst [THEN conjunct1, rule_format, OF this]
  have three: "\<exists>m. snd (fetchPiMetrics porch (httpGet peerTickA)) = Inr m
         \<and> objectText amd64
              (envelope (sellerCfg porch) ''brightness_sample'' (Finite 1)
                 1704067200 ''2024-01-01T00:00:00Z'') @ [CHR 0x0A]
           = objectText amd64
               (envelope (sellerCfg porch) (SampleKind (cfg seller)) (Brightness m)
                  (normalizedEpoch amd64 newYear m)
                  (rfc3339 (sint (normalizedEpoch amd64 newYear m)) 0)) @ [CHR 0x0A]" .
  have "fieldFor ''brightness'' \<noteq> Some FieldTs"
    by (simp add: fieldFor_def)
  moreover have "decode_piMetrics (JObject [(''brightness'', JNumber (InRange 7))]) =
      Inr \<lparr> Ts = Finite 0, Brightness = Finite 7 \<rparr>"
    by (simp add: decode_piMetrics_def fieldFor_def storeFloat_def firstError_def)
  ultimately have
    "normalizedEpoch amd64 newYear \<lparr> Ts = Finite 0, Brightness = Finite 7 \<rparr> = unixSec newYear"
    using inst [THEN conjunct2, THEN conjunct2, THEN conjunct2, THEN conjunct1, rule_format,
        of "[(''brightness'', JNumber (InRange 7))]" "\<lparr> Ts = Finite 0, Brightness = Finite 7 \<rparr>"]
    by simp
  then have four: "normalizedEpoch amd64 newYear \<lparr> Ts = Finite 0, Brightness = Finite 7 \<rparr> = 1704067200"
    by (simp add: now)
  from one two three four show ?thesis
    by (intro conjI)
qed

text \<open>
  Where C5 fails as stated. For the same sensor and instant, the line that the HTTP stream
  writes has the member \<open>ts\<close> equal to 0, printed as \<open>0\<close>: the wall-clock time is in
  \<open>time_iso\<close> only.
\<close>

theorem envelope_timestamps_counterexample:
  "httpWrites (fst (streamTick amd64 porch streamTickOk newYear)) =
     [objectText amd64
        (streamEnvelope (sellerCfg porch) (GFloat (Finite 0)) (GFloat (Finite 1))
           ''2024-01-01T00:00:00Z'') @ [CHR 0x0A]]
   \<and> last (streamEnvelope (sellerCfg porch) (GFloat (Finite 0)) (GFloat (Finite 1))
        ''2024-01-01T00:00:00Z'') = (''ts'', GFloat (Finite 0))
   \<and> render amd64 (GFloat (Finite 0)) = ''0''"
proof -
  have "httpWrites (fst (streamTick amd64 porch streamTickOk newYear)) =
     [objectText amd64
        (streamEnvelope (sellerCfg porch) (GFloat (Finite 0)) (GFloat (Finite 1))
           ''2024-01-01T00:00:00Z'') @ [CHR 0x0A]]"
    by (simp add: streamTick_ok httpWrites_def List.map_filter_simps)
  moreover have "last (streamEnvelope (sellerCfg porch) (GFloat (Finite 0)) (GFloat (Finite 1))
        ''2024-01-01T00:00:00Z'') = (''ts'', GFloat (Finite 0))"
    by (simp add: streamEnvelope_def)
  moreover have "render amd64 (GFloat (Finite 0)) = ''0''"
    by (simp add: amd64_def fmtWhole_def formatInt_def decimal.simps)
  ultimately show ?thesis
    by (intro conjI)
qed


end
